theory Spec2Isabelle
  imports Main "HOL-Library.Sublist" "HOL-Library.Monad_Syntax"
begin

section \<open>Job orchestration of the DiffRhythm GUI (src/app.py)\<close>

text \<open>
  A shallow embedding of the job orchestration code of \<^verbatim>\<open>src/app.py\<close>: the path
  sandbox (\<^verbatim>\<open>project_path\<close>), the command builder (\<^verbatim>\<open>build_infer_cmd\<close>), the
  runner and relocator (\<^verbatim>\<open>run_infer\<close>), the history ledger (\<^verbatim>\<open>read_history\<close>,
  \<^verbatim>\<open>write_history\<close>) and the two generation handlers behind \<^verbatim>\<open>RUN_LOCK\<close>.

  Python strings are modelled as \<^typ>\<open>string\<close> (code points below 256), Python's
  unbounded integers as \<^typ>\<open>int\<close>, exceptions as values of \<open>py_exn\<close>, and a
  \<^verbatim>\<open>Path\<close> as the list of its components below the root.  Python floats are
  kept abstract: they are values of a type variable \<open>'f\<close>, and \<^verbatim>\<open>str(float(x))\<close>,
  \<^verbatim>\<open>float(s)\<close> are functions supplied by the environment record.
\<close>

subsection \<open>Exceptions\<close>

text \<open>
  The handlers distinguish \<^verbatim>\<open>ValueError\<close> (answered with status 400) from every
  other \<^verbatim>\<open>Exception\<close> (answered with status 500).
\<close>

datatype py_exn = ValueError string | OtherError string

subsection \<open>Python string operations\<close>

definition is_space :: "char \<Rightarrow> bool" where
  \<comment> \<open>\<^verbatim>\<open>str.isspace\<close> on the code points below 256\<close>
  "is_space c = ((of_char c :: nat) \<in> {9, 10, 11, 12, 13, 28, 29, 30, 31, 32, 133, 160})"

definition strip_chars :: "(char \<Rightarrow> bool) \<Rightarrow> string \<Rightarrow> string" where
  "strip_chars P s = rev (dropWhile P (rev (dropWhile P s)))"

definition py_strip :: "string \<Rightarrow> string" where
  \<comment> \<open>\<^verbatim>\<open>s.strip()\<close>\<close>
  "py_strip s = strip_chars is_space s"

definition strip_slash :: "string \<Rightarrow> string" where
  \<comment> \<open>\<^verbatim>\<open>s.strip("/")\<close>\<close>
  "strip_slash s = strip_chars (\<lambda>c. c = CHR ''/'') s"

function py_replace :: "string \<Rightarrow> string \<Rightarrow> string \<Rightarrow> string" where
  \<comment> \<open>\<^verbatim>\<open>s.replace(old, new)\<close> for a non-empty \<open>old\<close>: the non-overlapping
      occurrences, found from left to right\<close>
  "py_replace old new s =
     (if old = [] \<or> s = [] then s
      else if take (length old) s = old
        then new @ py_replace old new (drop (length old) s)
        else hd s # py_replace old new (tl s))"
  by pat_completeness auto
termination
  by (relation "measure (\<lambda>(old, new, s). length s)") auto

declare py_replace.simps [simp del]

fun split_on :: "char \<Rightarrow> string \<Rightarrow> string list" where
  \<comment> \<open>\<^verbatim>\<open>s.split(c)\<close>\<close>
  "split_on c [] = [[]]"
| "split_on c (x # xs) =
     (if x = c then [] # split_on c xs
      else (case split_on c xs of
              [] \<Rightarrow> [[x]]
            | w # ws \<Rightarrow> (x # w) # ws))"

definition digit_char :: "nat \<Rightarrow> char" where
  "digit_char n = ''0123456789'' ! (n mod 10)"

function str_nat :: "nat \<Rightarrow> string" where
  "str_nat n = (if n < 10 then [digit_char n] else str_nat (n div 10) @ [digit_char n])"
  by pat_completeness auto
termination
  by (relation "measure id") auto

declare str_nat.simps [simp del]

definition str_int :: "int \<Rightarrow> string" where
  \<comment> \<open>\<^verbatim>\<open>str(n)\<close> of a Python integer\<close>
  "str_int i = (if i < 0 then CHR ''-'' # str_nat (nat (- i)) else str_nat (nat i))"

subsection \<open>Paths\<close>

type_synonym path = "string list"

definition path_parts :: "string \<Rightarrow> string list" where
  \<comment> \<open>the components pathlib keeps of a relative path string: empty components and
      \<^verbatim>\<open>.\<close> are dropped, \<^verbatim>\<open>..\<close> is kept\<close>
  "path_parts s = filter (\<lambda>c. c \<noteq> [] \<and> c \<noteq> ''.'') (split_on CHR ''/'' s)"

definition parents :: "path \<Rightarrow> path list" where
  \<comment> \<open>\<^verbatim>\<open>p.parents\<close>: the proper ancestors, nearest first\<close>
  "parents p = map (\<lambda>n. take n p) (rev [0..<length p])"

definition str_path :: "path \<Rightarrow> string" where
  \<comment> \<open>\<^verbatim>\<open>str(p)\<close> of an absolute POSIX path\<close>
  "str_path p = (if p = [] then ''/'' else concat (map (\<lambda>c. CHR ''/'' # c) p))"

fun lexical_resolve :: "path \<Rightarrow> path \<Rightarrow> path" where
  \<comment> \<open>\<^verbatim>\<open>Path.resolve\<close> on a file system without symbolic links; the first argument
      is the stack of components resolved so far, innermost first\<close>
  "lexical_resolve acc [] = rev acc"
| "lexical_resolve acc (c # cs) =
     (if c = ''..'' then lexical_resolve (tl acc) cs else lexical_resolve (c # acc) cs)"

subsection \<open>Path sandbox: lines 198 to 217\<close>

definition safe_project_name :: "string option \<Rightarrow> string" where
  \<comment> \<open>lines 200 to 202 and 211 to 213; \<^verbatim>\<open>project or "Default"\<close> takes the default
      for \<^verbatim>\<open>None\<close> and for the empty string\<close>
  "safe_project_name project =
     (let s = (case project of None \<Rightarrow> ''Default''
               | Some t \<Rightarrow> if t = [] then ''Default'' else t);
          safe = strip_slash (py_replace [CHR 0x5C] ''/'' (py_replace ''..'' [] (py_strip s)))
      in if safe = [] then ''Default'' else safe)"

definition project_path_no_create ::
  "(path \<Rightarrow> path) \<Rightarrow> path \<Rightarrow> string option \<Rightarrow> py_exn + path" where
  \<comment> \<open>lines 209 to 217; \<open>rs\<close> is \<^verbatim>\<open>Path.resolve\<close> of the host file system and
      \<open>base\<close> the resolved base directory\<close>
  "project_path_no_create rs base project =
     (let p = rs (base @ path_parts (safe_project_name project))
      in if base \<notin> set (parents p) \<and> base \<noteq> p
         then Inl (ValueError ''Invalid project path'')
         else Inr p)"


subsection \<open>Data model\<close>

text \<open>
  The configuration of \<^verbatim>\<open>config.json\<close> (\<^verbatim>\<open>DEFAULT_CONFIG\<close>, lines 40 to 52), at
  its declared types. \<open>cfg_base_dir\<close> is the resolved base directory,
  \<^verbatim>\<open>Path(cfg.get("base_dir", ...)).resolve()\<close>.
\<close>

record 'f config =
  cfg_repo_id :: string
  cfg_audio_length :: int
  cfg_batch_infer_num :: int
  cfg_use_chunked :: bool
  cfg_steps :: int
  cfg_cfg_strength :: 'f
  cfg_cuda_visible_devices :: string
  cfg_base_dir :: path
  cfg_active_project :: "string option"

text \<open>
  The dictionary \<^verbatim>\<open>args_map\<close> handed to \<^verbatim>\<open>run_infer\<close> and
  \<^verbatim>\<open>build_infer_cmd\<close>: a field is \<open>None\<close> when the key is absent. Paths are
  stored as the strings \<^verbatim>\<open>str(path)\<close> gives.
\<close>

record 'f args_map =
  am_project :: "string option"
  am_mode :: "string option"
  am_repo_id :: "string option"
  am_audio_length :: "int option"
  am_batch_infer_num :: "int option"
  am_use_chunked :: "bool option"
  am_steps :: "int option"
  am_cfg_strength :: "'f option"
  am_ref_prompt :: "string option"
  am_ref_audio_path :: "string option"
  am_lrc_path :: "string option"

text \<open>The dictionary \<^verbatim>\<open>run_infer\<close> returns (lines 397 to 403).\<close>

record run_result =
  ok :: bool
  returncode :: int
  logs :: string
  outfile :: string
  outfile_name :: string

text \<open>A history entry (lines 729 to 742 and 838 to 851).\<close>

record 'f history_entry =
  h_ts :: int
  h_file :: string
  h_mode :: string
  h_ref_mode :: string
  h_prompt :: "string option"
  h_ref_audio :: "string option"
  h_audio_length :: int
  h_repo_id :: string
  h_steps :: int
  h_cfg_strength :: 'f
  h_chunked :: bool
  h_batch_infer_num :: int

text \<open>
  What \<^verbatim>\<open>json.loads\<close> can give for \<^verbatim>\<open>history.json\<close>: a list, whose elements
  are entries or any other JSON value, or a JSON value that is not a list (an object,
  \<^verbatim>\<open>null\<close>, a number, a string). \<open>Foreign\<close> and \<open>JOther\<close> carry the text of the
  value.
\<close>

datatype 'f jitem = Entry "'f history_entry" | Foreign string

datatype 'f jdoc = JList "'f jitem list" | JOther string

text \<open>\<^verbatim>\<open>datetime.now()\<close>, as the fields \<^verbatim>\<open>strftime\<close> reads.\<close>

record datetime =
  dt_year :: nat
  dt_month :: nat
  dt_day :: nat
  dt_hour :: nat
  dt_minute :: nat
  dt_second :: nat

type_synonym listing = "(string \<times> string) list"

text \<open>
  Everything the code takes from outside the repository: the interpreter and script
  paths, the host's \<^verbatim>\<open>Path.resolve\<close>, float conversion, the clock, the
  \<^verbatim>\<open>uuid4\<close> tokens, the JSON codec, base64 and HTTP, and the external process.
  \<open>run_process cmd cuda\<close> is \<^verbatim>\<open>subprocess.run\<close>: it raises, or gives the exit
  status, the combined output and the files found in the scratch directory once the
  process has exited (in the order \<^verbatim>\<open>glob\<close> lists them). The external tool is
  taken to write into its output directory only. \<open>sys_executable\<close> is what the
  function of that name returns (lines 244 to 270), and \<open>prelog_txt\<close> the header of
  lines 347 to 364.
\<close>

record 'f env =
  sys_executable :: string
  INFER_SCRIPT :: string
  TMP_DIR :: path
  UPLOADS_DIR :: path
  fs_resolve :: "path \<Rightarrow> path"
  str_float :: "'f \<Rightarrow> string"
  py_float :: "string \<Rightarrow> 'f option"
  float_of_int :: "int \<Rightarrow> py_exn + 'f"
  int_of_float :: "'f \<Rightarrow> py_exn + int"
  now :: datetime
  time_now :: int
  uuid_run :: string
  uuid_ref :: string
  uuid_lrc :: string
  uuid_name :: string
  json_dumps :: "'f jitem list \<Rightarrow> string"
  json_loads :: "string \<Rightarrow> 'f jdoc option"
  b64decode :: "string \<Rightarrow> string option"
  requests_installed :: bool
  http_get :: "string \<Rightarrow> py_exn + string"
  url_basename :: "string \<Rightarrow> string"
  prelog_txt :: "string list \<Rightarrow> string \<Rightarrow> string"
  run_process :: "string list \<Rightarrow> string \<Rightarrow> py_exn + (int \<times> string \<times> listing)"

subsection \<open>Command builder: lines 301 to 328\<close>

definition DEFAULT_repo_id :: string where
  "DEFAULT_repo_id = ''ASLP-lab/DiffRhythm-1_2''"

definition build_infer_cmd :: "'f env \<Rightarrow> 'f args_map \<Rightarrow> path \<Rightarrow> string list" where
  "build_infer_cmd e am tmp_outdir =
     [sys_executable e, INFER_SCRIPT e]
     @ [''--output-dir'', str_path tmp_outdir]
     @ [''--audio-length'', str_int (case am_audio_length am of None \<Rightarrow> 95 | Some n \<Rightarrow> n)]
     @ [''--repo-id'', (case am_repo_id am of None \<Rightarrow> DEFAULT_repo_id | Some r \<Rightarrow> r)]
     @ (case am_ref_audio_path am of
          Some p \<Rightarrow> [''--ref-audio-path'', p]
        | None \<Rightarrow>
            (case am_ref_prompt am of
               None \<Rightarrow> []
             | Some t \<Rightarrow> if t \<noteq> [] then [''--ref-prompt'', t] else []))
     @ (case am_lrc_path am of Some l \<Rightarrow> [''--lrc-path'', l] | None \<Rightarrow> [])
     @ (if am_use_chunked am = Some True then [''--chunked''] else [])
     @ [''--batch-infer-num'',
        str_int (case am_batch_infer_num am of None \<Rightarrow> 1 | Some n \<Rightarrow> n)]
     @ (case am_steps am of Some n \<Rightarrow> [''--steps'', str_int n] | None \<Rightarrow> [])
     @ (case am_cfg_strength am of
          Some c \<Rightarrow> [''--cfg-strength'', str_float e c]
        | None \<Rightarrow> [])"

definition validated :: "'f args_map \<Rightarrow> bool" where
  \<comment> \<open>what both handlers establish before they call \<^verbatim>\<open>run_infer\<close>: every generation
      parameter is present, and an audio reference or else a non-empty prompt\<close>
  "validated am =
     (am_repo_id am \<noteq> None \<and> am_audio_length am \<noteq> None
      \<and> am_batch_infer_num am \<noteq> None \<and> am_use_chunked am \<noteq> None
      \<and> am_steps am \<noteq> None \<and> am_cfg_strength am \<noteq> None
      \<and> (case am_ref_audio_path am of
            Some p \<Rightarrow> True
          | None \<Rightarrow> (case am_ref_prompt am of None \<Rightarrow> False | Some t \<Rightarrow> t \<noteq> [])))"

subsection \<open>A concrete environment\<close>

text \<open>
  A small decimal stand-in for floats, used where the definitions are run on concrete
  requests: \<open>Decimal m k\<close> is \<open>m / 10 ^ k\<close>, printed with at least one fraction digit
  as \<^verbatim>\<open>str(float)\<close> prints \<^verbatim>\<open>3.8\<close> and \<^verbatim>\<open>4.0\<close>.
\<close>

datatype decimal = Decimal int nat

fun str_decimal :: "decimal \<Rightarrow> string" where
  "str_decimal (Decimal m k) =
     (let k' = max k 1;
          a = nat \<bar>m * 10 ^ (k' - k)\<bar>;
          frac = str_nat (a mod 10 ^ k')
      in (if m < 0 then ''-'' else []) @ str_nat (a div 10 ^ k') @ ''.''
         @ replicate (k' - length frac) CHR ''0'' @ frac)"


subsection \<open>The state the handlers act on\<close>

text \<open>
  \<open>lock\<close> is \<^verbatim>\<open>RUN_LOCK\<close>, \<open>config\<close> what \<^verbatim>\<open>load_config\<close> returns,
  \<open>projects\<close> the directories at and below the base directory, each with its files
  (name and content; a project directory holds artifacts and \<^verbatim>\<open>history.json\<close>),
  \<open>tmp\<close> the scratch directories below \<^verbatim>\<open>TMP_DIR\<close> by name, \<open>uploads\<close> the files
  of \<^verbatim>\<open>UPLOADS_DIR\<close>, and \<open>spawned\<close> the commands of the external processes run
  so far. Of the ways the file system can fail, the model has those of
  \<^verbatim>\<open>mkdir\<close> (a missing parent, a file in the way) and of writing into a directory
  that does not exist; moving and removing files succeed.
\<close>

record 'f world =
  lock :: bool
  config :: "'f config"
  projects :: "path \<rightharpoonup> (string \<rightharpoonup> string)"
  tmp :: "string \<rightharpoonup> listing"
  uploads :: "string \<rightharpoonup> string"
  spawned :: "string list list"

definition path_exists :: "'f world \<Rightarrow> path \<Rightarrow> bool" where
  \<comment> \<open>\<^verbatim>\<open>p.exists()\<close> for a path at or below the base directory: a directory, or a
      file of a directory\<close>
  "path_exists w p =
     (projects w p \<noteq> None
      \<or> (p \<noteq> [] \<and> (case projects w (butlast p) of
                       None \<Rightarrow> False
                     | Some files \<Rightarrow> files (last p) \<noteq> None)))"

definition mkdir_exist_ok :: "path \<Rightarrow> 'f world \<Rightarrow> 'f world \<times> (py_exn + unit)" where
  \<comment> \<open>\<^verbatim>\<open>p.mkdir(exist_ok=True)\<close>: the parent must exist, and \<open>p\<close> must not be a file\<close>
  "mkdir_exist_ok p w =
     (if projects w p \<noteq> None then (w, Inr ())
      else (case projects w (butlast p) of
              None \<Rightarrow> (w, Inl (OtherError ''FileNotFoundError''))
            | Some files \<Rightarrow>
                if p \<noteq> [] \<and> files (last p) \<noteq> None
                then (w, Inl (OtherError ''FileExistsError''))
                else (w\<lparr>projects := (projects w)(p \<mapsto> Map.empty)\<rparr>, Inr ())))"

definition ensure_project_base :: "'f config \<Rightarrow> 'f world \<Rightarrow> 'f world \<times> (py_exn + path)" where
  \<comment> \<open>lines 190 to 196; \<^verbatim>\<open>base.mkdir(parents=True, exist_ok=True)\<close> creates the base
      when it is missing\<close>
  "ensure_project_base cfg w =
     (let base = cfg_base_dir cfg;
          w1 = (if projects w base \<noteq> None then w
                else w\<lparr>projects := (projects w)(base \<mapsto> Map.empty)\<rparr>)
      in (case mkdir_exist_ok (base @ [''Default'']) w1 of
            (w2, Inl e) \<Rightarrow> (w2, Inl e)
          | (w2, Inr u) \<Rightarrow> (w2, Inr base)))"

definition project_path ::
  "'f env \<Rightarrow> string option \<Rightarrow> 'f config \<Rightarrow> 'f world \<Rightarrow> 'f world \<times> (py_exn + path)" where
  \<comment> \<open>lines 198 to 207\<close>
  "project_path e project cfg w =
     (case ensure_project_base cfg w of
        (w1, Inl x) \<Rightarrow> (w1, Inl x)
      | (w1, Inr base) \<Rightarrow>
          (let p = fs_resolve e (base @ path_parts (safe_project_name project))
           in if base \<notin> set (parents p) \<and> base \<noteq> p
              then (w1, Inl (ValueError ''Invalid project path''))
              else (case mkdir_exist_ok p w1 of
                      (w2, Inl x) \<Rightarrow> (w2, Inl x)
                    | (w2, Inr u) \<Rightarrow> (w2, Inr p))))"

subsection \<open>History ledger: lines 229 to 242\<close>

definition history_file :: string where
  "history_file = ''history.json''"

definition read_history :: "'f env \<Rightarrow> (string \<rightharpoonup> string) \<Rightarrow> 'f jdoc" where
  \<comment> \<open>lines 232 to 239, on the files of the project directory: a missing file and a
      file that does not parse both give the empty list; a file that parses gives what
      it holds, a list or not\<close>
  "read_history e files =
     (case files history_file of
        None \<Rightarrow> JList []
      | Some txt \<Rightarrow> (case json_loads e txt of None \<Rightarrow> JList [] | Some doc \<Rightarrow> doc))"

definition write_text_states ::
  "(string \<rightharpoonup> string) \<Rightarrow> string \<Rightarrow> string \<Rightarrow> (string \<rightharpoonup> string) list" where
  \<comment> \<open>\<^verbatim>\<open>Path.write_text\<close> is \<^verbatim>\<open>open(mode="w")\<close> followed by one write and the
      close: the states of the directory a reader can see once the call has begun are
      the file truncated to nothing, then the file with all of the data\<close>
  "write_text_states files name data = [files(name \<mapsto> []), files(name \<mapsto> data)]"

definition write_history_states ::
  "'f env \<Rightarrow> (string \<rightharpoonup> string) \<Rightarrow> 'f jitem list \<Rightarrow> (string \<rightharpoonup> string) list" where
  \<comment> \<open>lines 241 to 242, step by step\<close>
  "write_history_states e files items =
     write_text_states files history_file (json_dumps e items)"

definition write_history ::
  "'f env \<Rightarrow> (string \<rightharpoonup> string) \<Rightarrow> 'f jitem list \<Rightarrow> (string \<rightharpoonup> string)" where
  \<comment> \<open>lines 241 to 242: the directory once \<^verbatim>\<open>write_text\<close> has returned\<close>
  "write_history e files items = last (write_history_states e files items)"

definition append_history ::
  "'f env \<Rightarrow> (string \<rightharpoonup> string) \<Rightarrow> 'f history_entry \<Rightarrow> py_exn + (string \<rightharpoonup> string)" where
  \<comment> \<open>lines 728, 743 and 744 (and 837, 852 and 853): read, append, write;
      \<^verbatim>\<open>h.append\<close> raises \<^verbatim>\<open>AttributeError\<close> when \<open>h\<close> is not a list, before
      anything is written\<close>
  "append_history e files entry =
     (case read_history e files of
        JList h \<Rightarrow> Inr (write_history e files (h @ [Entry entry]))
      | JOther v \<Rightarrow> Inl (OtherError ''AttributeError''))"

fun append_all ::
  "'f env \<Rightarrow> (string \<rightharpoonup> string) \<Rightarrow> 'f history_entry list \<Rightarrow> py_exn + (string \<rightharpoonup> string)" where
  \<comment> \<open>the appends of successive runs, stopping at the first that raises\<close>
  "append_all e files [] = Inr files"
| "append_all e files (x # xs) =
     (case append_history e files x of
        Inl err \<Rightarrow> Inl err
      | Inr files' \<Rightarrow> append_all e files' xs)"

subsection \<open>Runner and relocator: lines 330 to 403\<close>

definition zero_pad :: "nat \<Rightarrow> string \<Rightarrow> string" where
  "zero_pad n s = replicate (n - length s) CHR ''0'' @ s"

definition timestamp_str :: "datetime \<Rightarrow> string" where
  \<comment> \<open>lines 187 and 188: \<^verbatim>\<open>strftime("%Y%m%d-%H%M%S")\<close>\<close>
  "timestamp_str t =
     zero_pad 4 (str_nat (dt_year t)) @ zero_pad 2 (str_nat (dt_month t))
     @ zero_pad 2 (str_nat (dt_day t)) @ ''-'' @ zero_pad 2 (str_nat (dt_hour t))
     @ zero_pad 2 (str_nat (dt_minute t)) @ zero_pad 2 (str_nat (dt_second t))"

definition is_wav :: "string \<Rightarrow> bool" where
  \<comment> \<open>the names \<^verbatim>\<open>glob("*.wav")\<close> matches\<close>
  "is_wav name = suffix ''.wav'' name"

definition file_exists :: "listing \<Rightarrow> string \<Rightarrow> bool" where
  "file_exists files name = (map_of files name \<noteq> None)"

definition select_src :: "listing \<Rightarrow> string" where
  \<comment> \<open>lines 380 to 384: \<^verbatim>\<open>output.wav\<close>, or else the first match of the glob when
      there is one\<close>
  "select_src files =
     (if \<not> file_exists files ''output.wav''
      then (case filter is_wav (map fst files) of
              [] \<Rightarrow> ''output.wav''
            | n # ns \<Rightarrow> n)
      else ''output.wav'')"

definition artifact_present :: "listing \<Rightarrow> bool" where
  \<comment> \<open>the scratch directory holds \<^verbatim>\<open>output.wav\<close> or some file with the extension
      \<^verbatim>\<open>.wav\<close>\<close>
  "artifact_present files = list_ex (\<lambda>n. n = ''output.wav'' \<or> is_wav n) (map fst files)"

definition final_name_of :: "'f env \<Rightarrow> string" where
  \<comment> \<open>line 379\<close>
  "final_name_of e = ''output-'' @ timestamp_str (now e) @ ''.wav''"

definition run_token_of :: "'f env \<Rightarrow> string" where
  \<comment> \<open>line 331\<close>
  "run_token_of e = ''run-'' @ uuid_run e"

definition run_infer ::
  "'f env \<Rightarrow> 'f args_map \<Rightarrow> string \<Rightarrow> 'f world \<Rightarrow> 'f world \<times> (py_exn + run_result)" where
  "run_infer e am cuda w =
     (let run_token = run_token_of e;
          tmp_outdir = TMP_DIR e @ [run_token];
          w1 = (if tmp w run_token \<noteq> None then w
                else w\<lparr>tmp := (tmp w)(run_token \<mapsto> [])\<rparr>);
          cmd = build_infer_cmd e am tmp_outdir;
          prelog = prelog_txt e cmd cuda
      in (case run_process e cmd cuda of
            Inl x \<Rightarrow> (w1, Inl x)
          | Inr (rc, out, files) \<Rightarrow>
              (let w2 = w1\<lparr>spawned := spawned w1 @ [cmd],
                           tmp := (tmp w1)(run_token \<mapsto> files)\<rparr>;
                   logs = prelog @ out
               in (case project_path e (am_project am) (config w2) w2 of
                     (w3, Inl x) \<Rightarrow> (w3, Inl x)
                   | (w3, Inr project_dir) \<Rightarrow>
                       (let final_name = final_name_of e;
                            src = select_src files;
                            final_path = project_dir @ [final_name]
                        in (case (if file_exists files src
                                  then (case projects w3 project_dir of
                                          None \<Rightarrow> Inl (OtherError ''FileNotFoundError'')
                                        | Some pfiles \<Rightarrow>
                                            Inr (w3\<lparr>projects := (projects w3)(project_dir \<mapsto>
                                                       pfiles(final_name \<mapsto> the (map_of files src))),
                                                     tmp := (tmp w3)(run_token \<mapsto>
                                                       filter (\<lambda>f. fst f \<noteq> src) files)\<rparr>, True))
                                  else Inr (w3, False)) of
                              Inl x \<Rightarrow> (w3, Inl x)
                            | Inr (w4, moved) \<Rightarrow>
                                (w4\<lparr>tmp := (tmp w4)(run_token := None)\<rparr>,
                                 Inr \<lparr>ok = moved \<and> rc = 0,
                                      returncode = rc,
                                      logs = logs,
                                      outfile = (if moved then str_path final_path else []),
                                      outfile_name = (if moved then final_name else [])\<rparr>)))))))"


subsection \<open>Requests and responses\<close>

text \<open>
  A response is \<^verbatim>\<open>jsonify({"ok": False, "error": msg}), status\<close> or the result
  dictionary of \<^verbatim>\<open>run_infer\<close> with status 200.
\<close>

datatype response = Failure nat string | Completed run_result



text \<open>
  The multipart form of \<^verbatim>\<open>/api/generate\<close>: \<^verbatim>\<open>request.form\<close> holds strings,
  \<^verbatim>\<open>request.files\<close> holds uploads (file name and content). \<open>None\<close> is an absent
  key.
\<close>

record form_request =
  f_project :: "string option"
  f_mode :: "string option"
  f_ref_mode :: "string option"
  f_ref_prompt :: "string option"
  f_ref_audio_existing :: "string option"
  f_ref_audio :: "(string \<times> string) option"
  f_lrc_file :: "(string \<times> string) option"
  f_repo_id :: "string option"
  f_audio_length :: "string option"
  f_batch_infer_num :: "string option"
  f_steps :: "string option"
  f_cfg_strength :: "string option"
  f_use_chunked :: "string option"
  f_cuda_visible_devices :: "string option"

text \<open>
  The JSON object of \<^verbatim>\<open>/api/generate/json\<close>. Text members are modelled at their
  declared type; a numeric member may arrive as a JSON integer, a JSON float or a
  string. \<^verbatim>\<open>null\<close> and members of another type are outside the model.
\<close>

datatype 'f jnum = JInt int | JFloat 'f | JStr string

record 'f json_request =
  j_project :: "string option"
  j_mode :: "string option"
  j_repo_id :: "string option"
  j_audio_length :: "'f jnum option"
  j_use_chunked :: "bool option"
  j_batch_infer_num :: "'f jnum option"
  j_steps :: "'f jnum option"
  j_cfg_strength :: "'f jnum option"
  j_cuda_visible_devices :: "string option"
  j_ref_prompt :: "string option"
  j_ref_mode :: "string option"
  j_ref_audio_existing :: "string option"
  j_ref_audio_b64 :: "string option"
  j_ref_audio_url :: "string option"
  j_ref_audio_filename :: "string option"
  j_lrc_b64 :: "string option"
  j_lrc_url :: "string option"
  j_lrc_filename :: "string option"

text \<open>
  The local variables of a handler at the point where it builds \<^verbatim>\<open>args_map\<close>
  (lines 704 and 816).
\<close>

record 'f job =
  job_project :: string
  job_mode :: string
  job_ref_mode :: string
  job_ref_prompt :: string
  job_ref_audio_path :: "string option"
  job_ref_audio_existing :: string
  job_lrc_path :: "string option"
  job_repo_id :: string
  job_audio_length :: int
  job_batch_infer_num :: int
  job_use_chunked :: bool
  job_steps :: int
  job_cfg_strength :: 'f
  job_cuda :: string
  job_project_dir :: path

subsection \<open>Conversions and file names\<close>

definition is_digit :: "char \<Rightarrow> bool" where
  "is_digit c = (48 \<le> (of_char c :: nat) \<and> (of_char c :: nat) \<le> 57)"

fun valid_digits :: "string \<Rightarrow> bool" where
  \<comment> \<open>digits, with single underscores between them\<close>
  "valid_digits [] = False"
| "valid_digits [c] = is_digit c"
| "valid_digits (c # d # cs) =
     (is_digit c \<and> (if d = CHR ''_'' then valid_digits cs else valid_digits (d # cs)))"

definition digits_value :: "string \<Rightarrow> nat" where
  "digits_value s = foldl (\<lambda>a c. 10 * a + ((of_char c :: nat) - 48)) 0 (filter is_digit s)"

definition py_int :: "string \<Rightarrow> int option" where
  \<comment> \<open>\<^verbatim>\<open>int(s)\<close> of a string: \<open>None\<close> stands for \<^verbatim>\<open>ValueError\<close>\<close>
  "py_int s =
     (let t = py_strip s;
          neg = (t \<noteq> [] \<and> hd t = CHR ''-'');
          d = (if t \<noteq> [] \<and> (hd t = CHR ''-'' \<or> hd t = CHR ''+'') then tl t else t)
      in if valid_digits d
         then Some (if neg then - int (digits_value d) else int (digits_value d))
         else None)"

definition int_of_form :: "string option \<Rightarrow> int \<Rightarrow> py_exn + int" where
  \<comment> \<open>\<^verbatim>\<open>int(request.form.get(key, default))\<close>; the literal that Python quotes in
      the message is left out\<close>
  "int_of_form v d =
     (case v of
        None \<Rightarrow> Inr d
      | Some s \<Rightarrow>
          (case py_int s of
             None \<Rightarrow> Inl (ValueError ''invalid literal for int() with base 10'')
           | Some i \<Rightarrow> Inr i))"

definition float_of_form :: "'f env \<Rightarrow> string option \<Rightarrow> 'f \<Rightarrow> py_exn + 'f" where
  \<comment> \<open>\<^verbatim>\<open>float(request.form.get(key, default))\<close>\<close>
  "float_of_form e v d =
     (case v of
        None \<Rightarrow> Inr d
      | Some s \<Rightarrow>
          (case py_float e s of
             None \<Rightarrow> Inl (ValueError ''could not convert string to float'')
           | Some x \<Rightarrow> Inr x))"

definition int_of_json :: "'f env \<Rightarrow> 'f jnum option \<Rightarrow> int \<Rightarrow> py_exn + int" where
  \<comment> \<open>\<^verbatim>\<open>int(data.get(key, default))\<close>\<close>
  "int_of_json e v d =
     (case v of
        None \<Rightarrow> Inr d
      | Some (JInt i) \<Rightarrow> Inr i
      | Some (JFloat x) \<Rightarrow> int_of_float e x
      | Some (JStr s) \<Rightarrow>
          (case py_int s of
             None \<Rightarrow> Inl (ValueError ''invalid literal for int() with base 10'')
           | Some i \<Rightarrow> Inr i))"

definition float_of_json :: "'f env \<Rightarrow> 'f jnum option \<Rightarrow> 'f \<Rightarrow> py_exn + 'f" where
  \<comment> \<open>\<^verbatim>\<open>float(data.get(key, default))\<close>\<close>
  "float_of_json e v d =
     (case v of
        None \<Rightarrow> Inr d
      | Some (JInt i) \<Rightarrow> float_of_int e i
      | Some (JFloat x) \<Rightarrow> Inr x
      | Some (JStr s) \<Rightarrow>
          (case py_float e s of
             None \<Rightarrow> Inl (ValueError ''could not convert string to float'')
           | Some x \<Rightarrow> Inr x))"

definition truthy :: "string option \<Rightarrow> bool" where
  \<comment> \<open>the truth value of \<^verbatim>\<open>d.get(key)\<close> for a text member\<close>
  "truthy v = (case v of None \<Rightarrow> False | Some s \<Rightarrow> s \<noteq> [])"

definition get_or :: "string option \<Rightarrow> string \<Rightarrow> string" where
  \<comment> \<open>\<^verbatim>\<open>d.get(key, default)\<close>\<close>
  "get_or v d = (case v of None \<Rightarrow> d | Some s \<Rightarrow> s)"

definition path_name :: "string \<Rightarrow> string" where
  \<comment> \<open>\<^verbatim>\<open>Path(s).name\<close>\<close>
  "path_name s = (case path_parts s of [] \<Rightarrow> [] | c # cs \<Rightarrow> last (c # cs))"

definition path_join :: "path \<Rightarrow> string \<Rightarrow> path" where
  \<comment> \<open>\<^verbatim>\<open>base / s\<close>: an absolute \<open>s\<close> replaces the base\<close>
  "path_join base s =
     (if s \<noteq> [] \<and> hd s = CHR ''/'' then path_parts s else base @ path_parts s)"

definition is_alnum :: "char \<Rightarrow> bool" where
  \<comment> \<open>\<^verbatim>\<open>str.isalnum\<close> on the code points below 256\<close>
  "is_alnum c =
     (let n = (of_char c :: nat)
      in (48 \<le> n \<and> n \<le> 57) \<or> (65 \<le> n \<and> n \<le> 90) \<or> (97 \<le> n \<and> n \<le> 122)
         \<or> n \<in> {170, 178, 179, 181, 185, 186, 188, 189, 190}
         \<or> (192 \<le> n \<and> n \<le> 214) \<or> (216 \<le> n \<and> n \<le> 246) \<or> 248 \<le> n)"

definition secure_name :: "'f env \<Rightarrow> string \<Rightarrow> string" where
  \<comment> \<open>lines 272 to 276\<close>
  "secure_name e name =
     (let base = path_name (py_strip name);
          safe = strip_chars (\<lambda>c. c = CHR ''.'')
                   (filter (\<lambda>ch. is_alnum ch \<or> ch \<in> set ''._-'') base)
      in if safe \<noteq> [] then safe else ''file-'' @ uuid_name e)"

definition save_b64 ::
  "'f env \<Rightarrow> string \<Rightarrow> string \<Rightarrow> 'f world \<Rightarrow> 'f world \<times> (py_exn + path)" where
  \<comment> \<open>lines 278 to 284: the file is opened (and so created empty) before the data is
      decoded; \<^verbatim>\<open>binascii.Error\<close> is a \<^verbatim>\<open>ValueError\<close>\<close>
  "save_b64 e data_b64 filename w =
     (let fn = secure_name e (if filename \<noteq> [] then filename else ''upload-'' @ uuid_name e);
          w1 = w\<lparr>uploads := (uploads w)(fn \<mapsto> [])\<rparr>
      in (case b64decode e data_b64 of
            None \<Rightarrow> (w1, Inl (ValueError ''Incorrect padding''))
          | Some bytes \<Rightarrow>
              (w1\<lparr>uploads := (uploads w1)(fn \<mapsto> bytes)\<rparr>, Inr (UPLOADS_DIR e @ [fn]))))"

definition save_from_url ::
  "'f env \<Rightarrow> string \<Rightarrow> string option \<Rightarrow> 'f world \<Rightarrow> 'f world \<times> (py_exn + path)" where
  \<comment> \<open>lines 286 to 299\<close>
  "save_from_url e url filename w =
     (if \<not> requests_installed e
      then (w, Inl (OtherError ''requests not installed; cannot download URLs. Install flask-cors requests.''))
      else (case http_get e url of
              Inl x \<Rightarrow> (w, Inl x)
            | Inr content \<Rightarrow>
                (let guess = (if url_basename e url \<noteq> [] then url_basename e url
                              else ''download.bin'');
                     fn = secure_name e (if truthy filename then the filename else guess)
                 in (w\<lparr>uploads := (uploads w)(fn \<mapsto> content)\<rparr>,
                     Inr (UPLOADS_DIR e @ [fn])))))"


subsection \<open>The generation handlers: lines 624 to 862\<close>

definition args_map_of :: "'f job \<Rightarrow> 'f args_map" where
  \<comment> \<open>lines 705 to 722 and 817 to 832\<close>
  "args_map_of j =
     \<lparr>am_project = Some (job_project j),
      am_mode = Some (job_mode j),
      am_repo_id = Some (job_repo_id j),
      am_audio_length = Some (job_audio_length j),
      am_batch_infer_num = Some (job_batch_infer_num j),
      am_use_chunked = Some (job_use_chunked j),
      am_steps = Some (job_steps j),
      am_cfg_strength = Some (job_cfg_strength j),
      am_ref_prompt = (if job_ref_audio_path j \<noteq> None then None else Some (job_ref_prompt j)),
      am_ref_audio_path = job_ref_audio_path j,
      am_lrc_path = job_lrc_path j\<rparr>"

definition history_entry_of :: "'f env \<Rightarrow> 'f job \<Rightarrow> run_result \<Rightarrow> 'f history_entry" where
  \<comment> \<open>lines 729 to 742 and 838 to 851\<close>
  "history_entry_of e j result =
     \<lparr>h_ts = time_now e,
      h_file = outfile_name result,
      h_mode = job_mode j,
      h_ref_mode = job_ref_mode j,
      h_prompt = (if job_ref_mode j = ''prompt'' then Some (job_ref_prompt j) else None),
      h_ref_audio = (if job_ref_audio_existing j \<noteq> [] then Some (job_ref_audio_existing j)
                     else job_ref_audio_path j),
      h_audio_length = job_audio_length j,
      h_repo_id = job_repo_id j,
      h_steps = job_steps j,
      h_cfg_strength = job_cfg_strength j,
      h_chunked = job_use_chunked j,
      h_batch_infer_num = job_batch_infer_num j\<rparr>"

definition finish_generate ::
  "'f env \<Rightarrow> 'f job \<Rightarrow> 'f world \<Rightarrow> 'f world \<times> (py_exn + response)" where
  \<comment> \<open>lines 704 to 746 and 817 to 855: build \<^verbatim>\<open>args_map\<close>, run, and append to the
      history when the result is ok\<close>
  "finish_generate e j w =
     (case run_infer e (args_map_of j) (job_cuda j) w of
        (w1, Inl x) \<Rightarrow> (w1, Inl x)
      | (w1, Inr result) \<Rightarrow>
          if ok result
          then (case projects w1 (job_project_dir j) of
                  None \<Rightarrow> (w1, Inl (OtherError ''FileNotFoundError''))
                | Some files \<Rightarrow>
                    (case append_history e files (history_entry_of e j result) of
                       Inl x \<Rightarrow> (w1, Inl x)
                     | Inr files' \<Rightarrow>
                         (w1\<lparr>projects := (projects w1)(job_project_dir j \<mapsto> files')\<rparr>,
                          Inr (Completed result))))
          else (w1, Inr (Completed result)))"

definition save_upload ::
  "'f env \<Rightarrow> string \<Rightarrow> (string \<times> string) \<Rightarrow> 'f world \<Rightarrow> 'f world \<times> path" where
  \<comment> \<open>lines 661 to 665 and 674 to 678: \<open>tag\<close> is the prefix with its token\<close>
  "save_upload e tag file w =
     (let fname = tag @ ''-'' @ path_name (fst file)
      in (w\<lparr>uploads := (uploads w)(fname \<mapsto> snd file)\<rparr>, UPLOADS_DIR e @ [fname]))"

definition form_params ::
  "'f env \<Rightarrow> form_request \<Rightarrow> 'f config \<Rightarrow> string
     \<Rightarrow> py_exn + (string \<times> int \<times> int \<times> bool \<times> int \<times> 'f \<times> string)" where
  \<comment> \<open>lines 681 to 702; the tuple is repo_id, audio_length, batch_infer_num,
      use_chunked, steps, cfg_strength, cuda_visible_devices\<close>
  "form_params e req cfg mode =
     (let repo_id = get_or (f_repo_id req) (cfg_repo_id cfg)
      in case int_of_form (f_audio_length req) (cfg_audio_length cfg) of
           Inl x \<Rightarrow> Inl x
         | Inr audio_length \<Rightarrow>
             if mode = ''simple''
             then (case int_of_form (f_steps req) (cfg_steps cfg) of
                     Inl x \<Rightarrow> Inl x
                   | Inr steps \<Rightarrow>
                       (case float_of_form e (f_cfg_strength req) (cfg_cfg_strength cfg) of
                          Inl x \<Rightarrow> Inl x
                        | Inr cfg_strength \<Rightarrow>
                            Inr (repo_id, audio_length, 1, False, steps, cfg_strength, ''0'')))
             else (case int_of_form (f_batch_infer_num req) (cfg_batch_infer_num cfg) of
                     Inl x \<Rightarrow> Inl x
                   | Inr batch_infer_num \<Rightarrow>
                       (case int_of_form (f_steps req) (cfg_steps cfg) of
                          Inl x \<Rightarrow> Inl x
                        | Inr steps \<Rightarrow>
                            (case float_of_form e (f_cfg_strength req) (cfg_cfg_strength cfg) of
                               Inl x \<Rightarrow> Inl x
                             | Inr cfg_strength \<Rightarrow>
                                 (let cuda = get_or (f_cuda_visible_devices req)
                                               (cfg_cuda_visible_devices cfg)
                                  in Inr (repo_id, audio_length, batch_infer_num,
                                          f_use_chunked req = Some ''on'', steps, cfg_strength,
                                          if cuda \<noteq> [] then cuda else ''0''))))))"

definition form_rest ::
  "'f env \<Rightarrow> form_request \<Rightarrow> 'f config \<Rightarrow> string \<Rightarrow> string \<Rightarrow> string \<Rightarrow> string
     \<Rightarrow> string option \<Rightarrow> string \<Rightarrow> path \<Rightarrow> 'f world \<Rightarrow> 'f world \<times> (py_exn + response)" where
  \<comment> \<open>lines 670 to 746, once the reference input is settled\<close>
  "form_rest e req cfg project mode ref_mode ref_prompt ref_audio_path ref_audio_existing
     project_dir w =
     (case (if mode = ''advanced''
            then (case f_lrc_file req of
                    None \<Rightarrow> (w, None)
                  | Some file \<Rightarrow>
                      if fst file \<noteq> []
                      then (case save_upload e (''lrc-'' @ uuid_lrc e) file w of
                              (w', p) \<Rightarrow> (w', Some (str_path p)))
                      else (w, None))
            else (w, None)) of
        (w1, lrc_path) \<Rightarrow>
          (case form_params e req cfg mode of
             Inl x \<Rightarrow> (w1, Inl x)
           | Inr (repo_id, audio_length, batch_infer_num, use_chunked, steps, cfg_strength,
                  cuda) \<Rightarrow>
               finish_generate e
                 \<lparr>job_project = project, job_mode = mode, job_ref_mode = ref_mode,
                  job_ref_prompt = ref_prompt, job_ref_audio_path = ref_audio_path,
                  job_ref_audio_existing = ref_audio_existing, job_lrc_path = lrc_path,
                  job_repo_id = repo_id, job_audio_length = audio_length,
                  job_batch_infer_num = batch_infer_num, job_use_chunked = use_chunked,
                  job_steps = steps, job_cfg_strength = cfg_strength, job_cuda = cuda,
                  job_project_dir = project_dir\<rparr> w1))"

definition existing_ref :: "'f env \<Rightarrow> 'f world \<Rightarrow> path \<Rightarrow> string \<Rightarrow> path option" where
  \<comment> \<open>lines 653 to 655 and 787 to 790: a file of the project as the reference\<close>
  "existing_ref e w project_dir name =
     (let cand = fs_resolve e (path_join project_dir name)
      in if (project_dir \<in> set (parents cand) \<or> project_dir = cand) \<and> path_exists w cand
         then Some cand else None)"

definition api_generate_body ::
  "'f env \<Rightarrow> form_request \<Rightarrow> 'f world \<Rightarrow> 'f world \<times> (py_exn + response)" where
  \<comment> \<open>the \<^verbatim>\<open>try\<close> block of \<^verbatim>\<open>api_generate\<close>, lines 630 to 746\<close>
  "api_generate_body e req w =
     (let cfg = config w;
          project = get_or (f_project req) (get_or (cfg_active_project cfg) ''Default'');
          mode = get_or (f_mode req) ''simple''
      in case project_path e (Some project) cfg w of
           (w1, Inl x) \<Rightarrow> (w1, Inl x)
         | (w1, Inr project_dir) \<Rightarrow>
             (let ref_mode = get_or (f_ref_mode req) ''prompt''
              in if ref_mode = ''prompt''
                 then (let ref_prompt = py_strip (get_or (f_ref_prompt req) [])
                       in if ref_prompt = []
                          then (w1, Inr (Failure 400
                                  ''Text prompt is required when prompt mode is selected''))
                          else form_rest e req cfg project mode ref_mode ref_prompt None []
                                 project_dir w1)
                 else (let ref_audio_existing = py_strip (get_or (f_ref_audio_existing req) [])
                       in case (if ref_audio_existing \<noteq> []
                                then existing_ref e w1 project_dir ref_audio_existing
                                else None) of
                            Some cand \<Rightarrow>
                              form_rest e req cfg project mode ref_mode [] (Some (str_path cand))
                                ref_audio_existing project_dir w1
                          | None \<Rightarrow>
                              (case (case f_ref_audio req of
                                       None \<Rightarrow> None
                                     | Some file \<Rightarrow> if fst file \<noteq> [] then Some file else None) of
                                 Some file \<Rightarrow>
                                   (case save_upload e (''ref-'' @ uuid_ref e) file w1 of
                                      (w2, ref_p) \<Rightarrow>
                                        form_rest e req cfg project mode ref_mode []
                                          (Some (str_path ref_p)) ref_audio_existing project_dir w2)
                               | None \<Rightarrow>
                                   (w1, Inr (Failure 400
                                      ''Audio reference is required when audio mode is selected''))))))"

definition api_generate :: "'f env \<Rightarrow> form_request \<Rightarrow> 'f world \<Rightarrow> 'f world \<times> response" where
  \<comment> \<open>lines 624 to 753: the non-blocking acquire, the \<^verbatim>\<open>try\<close> block, the two
      \<^verbatim>\<open>except\<close> clauses and the \<^verbatim>\<open>finally\<close> clause\<close>
  "api_generate e req w =
     (if lock w then (w, Failure 429 ''Another job is running'')
      else (case api_generate_body e req (w\<lparr>lock := True\<rparr>) of
              (w1, r) \<Rightarrow>
                (w1\<lparr>lock := False\<rparr>,
                 (case r of
                    Inr resp \<Rightarrow> resp
                  | Inl (ValueError m) \<Rightarrow> Failure 400 m
                  | Inl (OtherError m) \<Rightarrow> Failure 500 (''Generation failed: '' @ m)))))"

definition json_params ::
  "'f env \<Rightarrow> 'f json_request \<Rightarrow> 'f config
     \<Rightarrow> py_exn + (string \<times> int \<times> int \<times> bool \<times> int \<times> 'f \<times> string)" where
  \<comment> \<open>lines 771 to 777; the tuple is as in \<open>form_params\<close>\<close>
  "json_params e req cfg =
     (let repo_id = get_or (j_repo_id req) (cfg_repo_id cfg)
      in case int_of_json e (j_audio_length req) (cfg_audio_length cfg) of
           Inl x \<Rightarrow> Inl x
         | Inr audio_length \<Rightarrow>
             (let use_chunked = (case j_use_chunked req of
                                   None \<Rightarrow> cfg_use_chunked cfg | Some b \<Rightarrow> b)
              in case int_of_json e (j_batch_infer_num req) (cfg_batch_infer_num cfg) of
                   Inl x \<Rightarrow> Inl x
                 | Inr batch_infer_num \<Rightarrow>
                     (case int_of_json e (j_steps req) (cfg_steps cfg) of
                        Inl x \<Rightarrow> Inl x
                      | Inr steps \<Rightarrow>
                          (case float_of_json e (j_cfg_strength req) (cfg_cfg_strength cfg) of
                             Inl x \<Rightarrow> Inl x
                           | Inr cfg_strength \<Rightarrow>
                               Inr (repo_id, audio_length, batch_infer_num, use_chunked, steps,
                                    cfg_strength,
                                    get_or (j_cuda_visible_devices req)
                                      (cfg_cuda_visible_devices cfg))))))"

definition json_rest ::
  "'f env \<Rightarrow> 'f json_request \<Rightarrow> string \<Rightarrow> string \<Rightarrow> string \<Rightarrow> string \<Rightarrow> string option
     \<Rightarrow> (string \<times> int \<times> int \<times> bool \<times> int \<times> 'f \<times> string) \<Rightarrow> path \<Rightarrow> 'f world
     \<Rightarrow> 'f world \<times> (py_exn + response)" where
  \<comment> \<open>lines 808 to 855, once the reference input is settled\<close>
  "json_rest e req project mode ref_mode ref_prompt ref_audio_path params project_dir w =
     (case (if truthy (j_lrc_b64 req)
            then (case save_b64 e (the (j_lrc_b64 req))
                         (if truthy (j_lrc_filename req) then the (j_lrc_filename req)
                          else ''lyrics.lrc'') w of
                    (w', Inl x) \<Rightarrow> (w', Inl x)
                  | (w', Inr p) \<Rightarrow> (w', Inr (Inr (Some (str_path p)))))
            else if truthy (j_lrc_url req)
            then (if \<not> requests_installed e
                  then (w, Inr (Inl (Failure 400 ''requests not installed; cannot fetch URLs'')))
                  else (case save_from_url e (the (j_lrc_url req)) (j_lrc_filename req) w of
                          (w', Inl x) \<Rightarrow> (w', Inl x)
                        | (w', Inr p) \<Rightarrow> (w', Inr (Inr (Some (str_path p))))))
            else (w, Inr (Inr None))) of
        (w1, Inl x) \<Rightarrow> (w1, Inl x)
      | (w1, Inr (Inl resp)) \<Rightarrow> (w1, Inr resp)
      | (w1, Inr (Inr lrc_path)) \<Rightarrow>
          (case params of
             (repo_id, audio_length, batch_infer_num, use_chunked, steps, cfg_strength, cuda) \<Rightarrow>
               finish_generate e
                 \<lparr>job_project = project, job_mode = mode, job_ref_mode = ref_mode,
                  job_ref_prompt = ref_prompt, job_ref_audio_path = ref_audio_path,
                  job_ref_audio_existing = get_or (j_ref_audio_existing req) [],
                  job_lrc_path = lrc_path,
                  job_repo_id = repo_id, job_audio_length = audio_length,
                  job_batch_infer_num = batch_infer_num, job_use_chunked = use_chunked,
                  job_steps = steps, job_cfg_strength = cfg_strength, job_cuda = cuda,
                  job_project_dir = project_dir\<rparr> w1))"

definition api_generate_json_body ::
  "'f env \<Rightarrow> 'f json_request option \<Rightarrow> 'f world \<Rightarrow> 'f world \<times> (py_exn + response)" where
  \<comment> \<open>the \<^verbatim>\<open>try\<close> block of \<^verbatim>\<open>api_generate_json\<close>, lines 764 to 855; the request
      is \<open>None\<close> when the body does not decode to a JSON object\<close>
  "api_generate_json_body e request w =
     (let cfg = config w
      in case request of
           None \<Rightarrow> (w, Inl (OtherError ''400 Bad Request''))
         | Some req \<Rightarrow>
             (let project = get_or (j_project req) (get_or (cfg_active_project cfg) ''Default'');
                  mode = get_or (j_mode req) ''advanced''
              in case project_path e (Some project) cfg w of
                   (w1, Inl x) \<Rightarrow> (w1, Inl x)
                 | (w1, Inr project_dir) \<Rightarrow>
                     (case json_params e req cfg of
                        Inl x \<Rightarrow> (w1, Inl x)
                      | Inr params \<Rightarrow>
                          (let ref_prompt = get_or (j_ref_prompt req) [];
                               ref_mode =
                                 (if truthy (j_ref_mode req) then the (j_ref_mode req)
                                  else if truthy (j_ref_audio_b64 req)
                                          \<or> truthy (j_ref_audio_url req)
                                          \<or> truthy (j_ref_audio_existing req)
                                       then ''audio'' else ''prompt'')
                           in if ref_mode = ''audio''
                              then (case (if truthy (j_ref_audio_existing req)
                                          then existing_ref e w1 project_dir
                                                 (secure_name e (the (j_ref_audio_existing req)))
                                          else None) of
                                      Some cand \<Rightarrow>
                                        json_rest e req project mode ref_mode ref_prompt
                                          (Some (str_path cand)) params project_dir w1
                                    | None \<Rightarrow>
                                        if truthy (j_ref_audio_b64 req)
                                        then (case save_b64 e (the (j_ref_audio_b64 req))
                                                     (if truthy (j_ref_audio_filename req)
                                                      then the (j_ref_audio_filename req)
                                                      else ''ref.wav'') w1 of
                                                (w2, Inl x) \<Rightarrow> (w2, Inl x)
                                              | (w2, Inr p) \<Rightarrow>
                                                  json_rest e req project mode ref_mode ref_prompt
                                                    (Some (str_path p)) params project_dir w2)
                                        else if truthy (j_ref_audio_url req)
                                        then (if \<not> requests_installed e
                                              then (w1, Inr (Failure 400
                                                     ''requests not installed; cannot fetch URLs''))
                                              else (case save_from_url e (the (j_ref_audio_url req))
                                                           (j_ref_audio_filename req) w1 of
                                                      (w2, Inl x) \<Rightarrow> (w2, Inl x)
                                                    | (w2, Inr p) \<Rightarrow>
                                                        json_rest e req project mode ref_mode
                                                          ref_prompt (Some (str_path p)) params
                                                          project_dir w2))
                                        else (w1, Inr (Failure 400
                                               ''Audio reference is required when audio mode is selected'')))
                              else if py_strip ref_prompt = []
                                   then (w1, Inr (Failure 400
                                           ''Text prompt is required when prompt mode is selected''))
                                   else json_rest e req project mode ref_mode ref_prompt None
                                          params project_dir w1))))"

definition api_generate_json ::
  "'f env \<Rightarrow> 'f json_request option \<Rightarrow> 'f world \<Rightarrow> 'f world \<times> response" where
  \<comment> \<open>lines 758 to 862\<close>
  "api_generate_json e request w =
     (if lock w then (w, Failure 429 ''Another job is running'')
      else (case api_generate_json_body e request (w\<lparr>lock := True\<rparr>) of
              (w1, r) \<Rightarrow>
                (w1\<lparr>lock := False\<rparr>,
                 (case r of
                    Inr resp \<Rightarrow> resp
                  | Inl (ValueError m) \<Rightarrow> Failure 400 m
                  | Inl (OtherError m) \<Rightarrow> Failure 500 (''Generation failed: '' @ m)))))"


subsection \<open>A concrete codec and environment\<close>

text \<open>
  The JSON codec is outside the repository; the ledger properties are stated for any
  codec whose \<open>json_loads\<close> inverts its \<open>json_dumps\<close>. The codec below is one such:
  every value is written with a length or a terminator, so that it can be read back.
  Of the JSON texts that are not lists it reads the empty object.
\<close>

definition enc_nat :: "nat \<Rightarrow> string" where
  "enc_nat n = str_nat n @ ''|''"

definition dec_nat :: "string \<Rightarrow> (nat \<times> string) option" where
  "dec_nat s =
     (let ds = takeWhile is_digit s
      in if ds = [] then None
         else (case dropWhile is_digit s of
                 [] \<Rightarrow> None
               | c # r \<Rightarrow> if c = CHR ''|'' then Some (digits_value ds, r) else None))"

definition enc_int :: "int \<Rightarrow> string" where
  "enc_int i = (if i < 0 then ''-'' else ''+'') @ enc_nat (nat \<bar>i\<bar>)"

definition dec_int :: "string \<Rightarrow> (int \<times> string) option" where
  "dec_int s =
     (case s of
        [] \<Rightarrow> None
      | c # r \<Rightarrow>
          if c = CHR ''-'' then map_option (\<lambda>(n, r'). (- int n, r')) (dec_nat r)
          else if c = CHR ''+'' then map_option (\<lambda>(n, r'). (int n, r')) (dec_nat r)
          else None)"

definition enc_str :: "string \<Rightarrow> string" where
  "enc_str s = enc_nat (length s) @ s"

definition dec_str :: "string \<Rightarrow> (string \<times> string) option" where
  "dec_str s =
     (case dec_nat s of
        None \<Rightarrow> None
      | Some (n, r) \<Rightarrow> if n \<le> length r then Some (take n r, drop n r) else None)"

definition enc_opt :: "string option \<Rightarrow> string" where
  "enc_opt v = (case v of None \<Rightarrow> ''n'' | Some s \<Rightarrow> ''s'' @ enc_str s)"

definition dec_opt :: "string \<Rightarrow> (string option \<times> string) option" where
  "dec_opt s =
     (case s of
        [] \<Rightarrow> None
      | c # r \<Rightarrow>
          if c = CHR ''n'' then Some (None, r)
          else if c = CHR ''s'' then map_option (\<lambda>(t, r'). (Some t, r')) (dec_str r)
          else None)"

definition enc_bool :: "bool \<Rightarrow> string" where
  "enc_bool b = (if b then ''t'' else ''f'')"

definition dec_bool :: "string \<Rightarrow> (bool \<times> string) option" where
  "dec_bool s =
     (case s of
        [] \<Rightarrow> None
      | c # r \<Rightarrow>
          if c = CHR ''t'' then Some (True, r)
          else if c = CHR ''f'' then Some (False, r)
          else None)"

fun enc_decimal :: "decimal \<Rightarrow> string" where
  "enc_decimal (Decimal m k) = enc_int m @ enc_nat k"

definition dec_decimal :: "string \<Rightarrow> (decimal \<times> string) option" where
  "dec_decimal s =
     do { (m, s1) \<leftarrow> dec_int s; (k, s2) \<leftarrow> dec_nat s1; Some (Decimal m k, s2) }"

definition enc_entry :: "decimal history_entry \<Rightarrow> string" where
  "enc_entry x =
     enc_int (h_ts x) @ enc_str (h_file x) @ enc_str (h_mode x) @ enc_str (h_ref_mode x)
     @ enc_opt (h_prompt x) @ enc_opt (h_ref_audio x) @ enc_int (h_audio_length x)
     @ enc_str (h_repo_id x) @ enc_int (h_steps x) @ enc_decimal (h_cfg_strength x)
     @ enc_bool (h_chunked x) @ enc_int (h_batch_infer_num x)"

definition dec_entry :: "string \<Rightarrow> (decimal history_entry \<times> string) option" where
  "dec_entry s =
     do { (ts, s1) \<leftarrow> dec_int s;
          (file, s2) \<leftarrow> dec_str s1;
          (mode, s3) \<leftarrow> dec_str s2;
          (ref_mode, s4) \<leftarrow> dec_str s3;
          (prompt, s5) \<leftarrow> dec_opt s4;
          (ref_audio, s6) \<leftarrow> dec_opt s5;
          (audio_length, s7) \<leftarrow> dec_int s6;
          (repo_id, s8) \<leftarrow> dec_str s7;
          (steps, s9) \<leftarrow> dec_int s8;
          (cfg_strength, s10) \<leftarrow> dec_decimal s9;
          (chunked, s11) \<leftarrow> dec_bool s10;
          (batch_infer_num, s12) \<leftarrow> dec_int s11;
          Some (\<lparr>h_ts = ts, h_file = file, h_mode = mode, h_ref_mode = ref_mode,
                 h_prompt = prompt, h_ref_audio = ref_audio, h_audio_length = audio_length,
                 h_repo_id = repo_id, h_steps = steps, h_cfg_strength = cfg_strength,
                 h_chunked = chunked, h_batch_infer_num = batch_infer_num\<rparr>, s12) }"

definition enc_item :: "decimal jitem \<Rightarrow> string" where
  "enc_item x = (case x of Entry y \<Rightarrow> ''e'' @ enc_entry y | Foreign v \<Rightarrow> ''x'' @ enc_str v)"

definition dec_item :: "string \<Rightarrow> (decimal jitem \<times> string) option" where
  "dec_item s =
     (case s of
        [] \<Rightarrow> None
      | c # r \<Rightarrow>
          if c = CHR ''e'' then map_option (\<lambda>(y, r'). (Entry y, r')) (dec_entry r)
          else if c = CHR ''x'' then map_option (\<lambda>(v, r'). (Foreign v, r')) (dec_str r)
          else None)"

fun dec_items :: "nat \<Rightarrow> string \<Rightarrow> (decimal jitem list \<times> string) option" where
  "dec_items 0 s = Some ([], s)"
| "dec_items (Suc n) s =
     do { (x, s1) \<leftarrow> dec_item s; (xs, s2) \<leftarrow> dec_items n s1; Some (x # xs, s2) }"

definition demo_dumps :: "decimal jitem list \<Rightarrow> string" where
  "demo_dumps xs = enc_nat (length xs) @ concat (map enc_item xs)"

definition demo_list :: "string \<Rightarrow> decimal jitem list option" where
  "demo_list s =
     do { (n, s1) \<leftarrow> dec_nat s;
          (xs, r) \<leftarrow> dec_items n s1;
          if r = [] then Some xs else None }"

definition demo_loads :: "string \<Rightarrow> decimal jdoc option" where
  \<comment> \<open>a list in the format of \<open>demo_dumps\<close>, or the empty object; anything else does
      not parse\<close>
  "demo_loads s =
     (case demo_list s of
        Some xs \<Rightarrow> Some (JList xs)
      | None \<Rightarrow> if s = ''{}'' then Some (JOther s) else None)"

definition demo_float :: "string \<Rightarrow> decimal option" where
  "demo_float s =
     (case split_on CHR ''.'' (py_strip s) of
        [a] \<Rightarrow> map_option (\<lambda>i. Decimal i 0) (py_int a)
      | [a, b] \<Rightarrow>
          if b \<noteq> [] \<and> list_all is_digit b
          then map_option (\<lambda>i. Decimal i (length b)) (py_int (a @ b)) else None
      | _ \<Rightarrow> None)"

definition demo_base :: path where
  "demo_base = [''srv'', ''gui'', ''projects'']"

definition demo_env :: "decimal env" where
  \<comment> \<open>a stub tool that writes \<^verbatim>\<open>output.wav\<close> and exits with status 0\<close>
  "demo_env =
     \<lparr>sys_executable = ''python3'',
      INFER_SCRIPT = ''/srv/infer/infer.py'',
      TMP_DIR = [''srv'', ''gui'', ''tmp''],
      UPLOADS_DIR = [''srv'', ''gui'', ''uploads''],
      fs_resolve = lexical_resolve [],
      str_float = str_decimal,
      py_float = demo_float,
      float_of_int = (\<lambda>i. Inr (Decimal i 0)),
      int_of_float = (\<lambda>x. case x of Decimal m k \<Rightarrow> Inr (m div 10 ^ k)),
      now = \<lparr>dt_year = 2025, dt_month = 3, dt_day = 9, dt_hour = 7, dt_minute = 5,
              dt_second = 0\<rparr>,
      time_now = 1741503900,
      uuid_run = ''0a1b2c3d'',
      uuid_ref = ''11112222'',
      uuid_lrc = ''33334444'',
      uuid_name = ''555666'',
      json_dumps = demo_dumps,
      json_loads = demo_loads,
      b64decode = (\<lambda>s. Some s),
      requests_installed = False,
      http_get = (\<lambda>u. Inl (OtherError ''ConnectionError'')),
      url_basename = path_name,
      prelog_txt = (\<lambda>cmd cuda. ''DR-GUI CMD''),
      run_process = (\<lambda>cmd cuda. Inr (0, ''done'', [(''output.wav'', ''RIFF'')]))\<rparr>"

definition failing_env :: "decimal env" where
  \<comment> \<open>a stub tool that leaves \<^verbatim>\<open>take1.wav\<close> and \<^verbatim>\<open>take2.wav\<close> and exits with
      status 1\<close>
  "failing_env =
     demo_env\<lparr>run_process :=
       (\<lambda>cmd cuda. Inr (1, ''boom'', [(''notes.txt'', ''n''), (''take1.wav'', ''RIFF1''),
                                        (''take2.wav'', ''RIFF2'')]))\<rparr>"


definition demo_config :: "decimal config" where
  \<comment> \<open>\<^verbatim>\<open>DEFAULT_CONFIG\<close>, lines 40 to 52\<close>
  "demo_config =
     \<lparr>cfg_repo_id = ''ASLP-lab/DiffRhythm-1_2'',
      cfg_audio_length = 95,
      cfg_batch_infer_num = 1,
      cfg_use_chunked = False,
      cfg_steps = 56,
      cfg_cfg_strength = Decimal 38 1,
      cfg_cuda_visible_devices = ''0'',
      cfg_base_dir = demo_base,
      cfg_active_project = Some ''Default''\<rparr>"

definition demo_world :: "decimal world" where
  "demo_world =
     \<lparr>lock = False,
      config = demo_config,
      projects = [demo_base \<mapsto> Map.empty, demo_base @ [''Default''] \<mapsto> Map.empty],
      tmp = Map.empty,
      uploads = Map.empty,
      spawned = []\<rparr>"

definition empty_form :: form_request where
  "empty_form =
     \<lparr>f_project = None, f_mode = None, f_ref_mode = None, f_ref_prompt = None,
      f_ref_audio_existing = None, f_ref_audio = None, f_lrc_file = None, f_repo_id = None,
      f_audio_length = None, f_batch_infer_num = None, f_steps = None,
      f_cfg_strength = None, f_use_chunked = None, f_cuda_visible_devices = None\<rparr>"

definition demo_form :: form_request where
  \<comment> \<open>the example request of the specification\<close>
  "demo_form =
     empty_form\<lparr>f_project := Some ''Default'', f_mode := Some ''simple'',
                 f_ref_mode := Some ''prompt'', f_ref_prompt := Some ''uplifting piano'',
                 f_audio_length := Some ''95'', f_steps := Some ''56'',
                 f_cfg_strength := Some ''3.8''\<rparr>"

definition empty_json :: "decimal json_request" where
  "empty_json =
     \<lparr>j_project = None, j_mode = None, j_repo_id = None, j_audio_length = None,
      j_use_chunked = None, j_batch_infer_num = None, j_steps = None,
      j_cfg_strength = None, j_cuda_visible_devices = None, j_ref_prompt = None,
      j_ref_mode = None, j_ref_audio_existing = None, j_ref_audio_b64 = None,
      j_ref_audio_url = None, j_ref_audio_filename = None, j_lrc_b64 = None,
      j_lrc_url = None, j_lrc_filename = None\<rparr>"

definition demo_job :: "decimal job" where
  "demo_job =
     \<lparr>job_project = ''Default'', job_mode = ''simple'', job_ref_mode = ''prompt'',
      job_ref_prompt = ''uplifting piano'', job_ref_audio_path = None,
      job_ref_audio_existing = [], job_lrc_path = None,
      job_repo_id = ''ASLP-lab/DiffRhythm-1_2'', job_audio_length = 95,
      job_batch_infer_num = 1, job_use_chunked = False, job_steps = 56,
      job_cfg_strength = Decimal 38 1, job_cuda = ''0'',
      job_project_dir = demo_base @ [''Default'']\<rparr>"

definition demo_entry :: "decimal history_entry" where
  \<comment> \<open>the entry the example request leaves in the history\<close>
  "demo_entry =
     \<lparr>h_ts = 1741503900, h_file = ''output-20250309-070500.wav'', h_mode = ''simple'',
      h_ref_mode = ''prompt'', h_prompt = Some ''uplifting piano'', h_ref_audio = None,
      h_audio_length = 95, h_repo_id = ''ASLP-lab/DiffRhythm-1_2'', h_steps = 56,
      h_cfg_strength = Decimal 38 1, h_chunked = False, h_batch_infer_num = 1\<rparr>"

definition demo_ledger :: "string \<rightharpoonup> string" where
  \<comment> \<open>a project directory whose history holds one entry\<close>
  "demo_ledger = [history_file \<mapsto> demo_dumps [Entry demo_entry]]"

definition object_ledger :: "string \<rightharpoonup> string" where
  \<comment> \<open>a project directory whose \<^verbatim>\<open>history.json\<close> holds the empty JSON object\<close>
  "object_ledger = [history_file \<mapsto> ''{}'']"

definition object_world :: "decimal world" where
  \<comment> \<open>\<open>demo_world\<close> with that file in the project \<^verbatim>\<open>Default\<close>\<close>
  "object_world =
     demo_world\<lparr>projects := [demo_base \<mapsto> Map.empty,
                              demo_base @ [''Default''] \<mapsto> object_ledger]\<rparr>"




definition form_project :: "form_request \<Rightarrow> 'f config \<Rightarrow> string" where
  \<comment> \<open>line 631\<close>
  "form_project req cfg = get_or (f_project req) (get_or (cfg_active_project cfg) ''Default'')"

definition json_project :: "'f json_request \<Rightarrow> 'f config \<Rightarrow> string" where
  \<comment> \<open>line 767\<close>
  "json_project req cfg = get_or (j_project req) (get_or (cfg_active_project cfg) ''Default'')"

section \<open>Properties\<close>

subsection \<open>Path sandbox\<close>

lemma parents_prefix: "b \<in> set (parents p) \<Longrightarrow> prefix b p"
  by (auto simp: parents_def take_is_prefix)

lemma mkdir_exist_ok_fields:
  assumes "mkdir_exist_ok p w = (w', r)"
  shows "lock w' = lock w" "config w' = config w" "tmp w' = tmp w" "uploads w' = uploads w"
    "spawned w' = spawned w"
  using assms by (auto simp: mkdir_exist_ok_def split: if_splits option.splits)

lemma mkdir_exist_ok_projects:
  assumes "mkdir_exist_ok p w = (w', r)"
  shows "projects w' q = projects w q \<or> (projects w q = None \<and> projects w' q = Some Map.empty)"
  using assms by (auto simp: mkdir_exist_ok_def split: if_splits option.splits)

lemma mkdir_exist_ok_there:
  assumes "mkdir_exist_ok p w = (w', Inr u)"
  shows "projects w' p \<noteq> None"
  using assms by (auto simp: mkdir_exist_ok_def split: if_splits option.splits)

lemma mkdir_exist_ok_idem:
  assumes "projects w p \<noteq> None"
  shows "mkdir_exist_ok p w = (w, Inr ())"
  using assms by (simp add: mkdir_exist_ok_def)

lemma ensure_project_base_fields:
  assumes "ensure_project_base cfg w = (w', r)"
  shows "lock w' = lock w" "config w' = config w" "tmp w' = tmp w" "uploads w' = uploads w"
    "spawned w' = spawned w"
  using assms
  by (auto simp: ensure_project_base_def Let_def split: prod.splits sum.splits if_splits
      dest: mkdir_exist_ok_fields)


lemma ensure_project_base_result:
  "ensure_project_base cfg w = (w', Inr b) \<Longrightarrow> b = cfg_base_dir cfg"
  by (auto simp: ensure_project_base_def Let_def split: prod.splits sum.splits if_splits)

lemma ensure_project_base_idem:
  assumes "projects w (cfg_base_dir cfg) \<noteq> None" "projects w (cfg_base_dir cfg @ [''Default'']) \<noteq> None"
  shows "ensure_project_base cfg w = (w, Inr (cfg_base_dir cfg))"
  using assms by (simp add: ensure_project_base_def Let_def mkdir_exist_ok_idem)

lemma ensure_project_base_there:
  assumes "ensure_project_base cfg w = (w', Inr b)"
  shows "projects w' (cfg_base_dir cfg) \<noteq> None" "projects w' (cfg_base_dir cfg @ [''Default'']) \<noteq> None"
proof -
  define w1 where "w1 = (if projects w (cfg_base_dir cfg) \<noteq> None then w
                else w\<lparr>projects := (projects w)(cfg_base_dir cfg \<mapsto> Map.empty)\<rparr>)"
  have a: "projects w1 (cfg_base_dir cfg) \<noteq> None" by (auto simp: w1_def)
  have m: "mkdir_exist_ok (cfg_base_dir cfg @ [''Default'']) w1 = (w', Inr ())"
    using assms by (auto simp: ensure_project_base_def Let_def w1_def split: prod.splits sum.splits)
  from mkdir_exist_ok_there[OF m] show "projects w' (cfg_base_dir cfg @ [''Default'']) \<noteq> None" .
  from mkdir_exist_ok_projects[OF m, of "cfg_base_dir cfg"] a
  show "projects w' (cfg_base_dir cfg) \<noteq> None" by auto
qed

lemma project_path_cases:
  assumes "project_path e project cfg w = (w', r)"
  obtains r1 where "ensure_project_base cfg w = (w', r1)"
  | w1 b p r2 where "ensure_project_base cfg w = (w1, Inr b)" "mkdir_exist_ok p w1 = (w', r2)"
  using assms
  by (auto simp: project_path_def Let_def split: prod.splits sum.splits if_splits)

lemma project_path_fields:
  assumes "project_path e project cfg w = (w', r)"
  shows "lock w' = lock w" "config w' = config w" "tmp w' = tmp w" "uploads w' = uploads w"
    "spawned w' = spawned w"
proof -
  have "lock w' = lock w \<and> config w' = config w \<and> tmp w' = tmp w \<and> uploads w' = uploads w
      \<and> spawned w' = spawned w"
    using assms
  proof (cases rule: project_path_cases)
    case (1 r1)
    then show ?thesis by (simp add: ensure_project_base_fields)
  next
    case (2 w1 b p r2)
    then show ?thesis by (simp add: ensure_project_base_fields mkdir_exist_ok_fields)
  qed
  then show "lock w' = lock w" "config w' = config w" "tmp w' = tmp w" "uploads w' = uploads w"
    "spawned w' = spawned w" by simp_all
qed


lemma project_path_confined_aux:
  "project_path e project cfg w = (w', Inr p) \<Longrightarrow> prefix (cfg_base_dir cfg) p"
  by (auto simp: project_path_def Let_def split: prod.splits sum.splits if_splits
      dest: parents_prefix ensure_project_base_result)

lemma project_path_there:
  assumes "project_path e project cfg w = (w', Inr p)"
  shows "projects w' p \<noteq> None"
  using assms
  by (auto simp: project_path_def Let_def split: prod.splits sum.splits if_splits
      dest: mkdir_exist_ok_there)

lemma project_path_stable:
  assumes "project_path e project cfg w = (w', Inr p)" and "projects w2 = projects w'"
  shows "project_path e project cfg w2 = (w2, Inr p)"
proof -
  obtain w1 where e1: "ensure_project_base cfg w = (w1, Inr (cfg_base_dir cfg))"
    using assms(1) by (auto simp: project_path_def Let_def split: prod.splits sum.splits if_splits
        dest: ensure_project_base_result)
  let ?p = "fs_resolve e (cfg_base_dir cfg @ path_parts (safe_project_name project))"
  have g: "\<not> (cfg_base_dir cfg \<notin> set (parents ?p) \<and> cfg_base_dir cfg \<noteq> ?p)"
    and m: "mkdir_exist_ok ?p w1 = (w', Inr ())" and p: "p = ?p"
    using assms(1) e1
    by (auto simp: project_path_def Let_def split: prod.splits sum.splits if_splits)
  have b: "projects w2 (cfg_base_dir cfg) \<noteq> None"
    "projects w2 (cfg_base_dir cfg @ [''Default'']) \<noteq> None"
    using ensure_project_base_there[OF e1] mkdir_exist_ok_projects[OF m] assms(2)
    by (metis option.distinct(1))+
  have t: "projects w2 ?p \<noteq> None" using mkdir_exist_ok_there[OF m] assms(2) by simp
  show ?thesis using g p
    by (simp add: project_path_def ensure_project_base_idem[OF b] mkdir_exist_ok_idem[OF t] Let_def)
qed

text \<open>
  Claim C7. For every project identifier, \<^verbatim>\<open>project_path_no_create\<close> raises
  \<^verbatim>\<open>ValueError("Invalid project path")\<close> or returns a path at or below the base
  directory, and a path that \<^verbatim>\<open>project_path\<close> returns is at or below the base
  directory; this holds for every behaviour of \<^verbatim>\<open>Path.resolve\<close>, so for identifiers
  with \<^verbatim>\<open>..\<close>, slashes and backslashes too.
\<close>

theorem project_path_confined:
  "(project_path_no_create rs base project = Inl (ValueError ''Invalid project path'')
      \<or> (\<exists>p. project_path_no_create rs base project = Inr p \<and> prefix base p))
   \<and> (\<forall>p. snd (project_path e project' cfg w) = Inr p \<longrightarrow> prefix (cfg_base_dir cfg) p)"
proof (intro conjI allI impI)
  show "project_path_no_create rs base project = Inl (ValueError ''Invalid project path'')
      \<or> (\<exists>p. project_path_no_create rs base project = Inr p \<and> prefix base p)"
    by (auto simp: project_path_no_create_def Let_def dest: parents_prefix)
next
  fix p assume "snd (project_path e project' cfg w) = Inr p"
  then have "project_path e project' cfg w = (fst (project_path e project' cfg w), Inr p)"
    by (metis prod.collapse)
  then show "prefix (cfg_base_dir cfg) p" by (rule project_path_confined_aux)
qed

lemma sandbox_example_no_create: "project_path_no_create (lexical_resolve []) demo_base
       (Some (''..'' @ [CHR 0x5C] @ ''../etc/./passwd'')) = Inr (demo_base @ [''etc'', ''passwd''])"
  by code_simp

lemma sandbox_example_create: "snd (project_path demo_env (Some '' ../../Songs/ '') demo_config demo_world) = Inr (demo_base @ [''Songs''])"
  by code_simp

theorem project_path_confined_witness:
  "project_path_no_create (lexical_resolve []) demo_base
       (Some (''..'' @ [CHR 0x5C] @ ''../etc/./passwd'')) = Inr (demo_base @ [''etc'', ''passwd''])
   \<and> snd (project_path demo_env (Some '' ../../Songs/ '') demo_config demo_world)
       = Inr (demo_base @ [''Songs''])
   \<and> prefix (cfg_base_dir demo_config) (demo_base @ [''Songs''])"
  using project_path_confined [of "lexical_resolve []" demo_base
      "Some (''..'' @ [CHR 0x5C] @ ''../etc/./passwd'')" demo_env "Some '' ../../Songs/ ''"
      demo_config demo_world] sandbox_example_no_create sandbox_example_create
  by simp

subsection \<open>Job gate\<close>

text \<open>
  Claim C1. A request to either handler that finds the lock free, and so acquires it,
  leaves the lock released when it terminates, whatever the \<^verbatim>\<open>try\<close> block did:
  returned a result, returned a validation failure, or raised.
\<close>

theorem gate_released:
  "\<not> lock w \<Longrightarrow>
     \<not> lock (fst (api_generate e req w)) \<and> \<not> lock (fst (api_generate_json e' jreq w))"
  by (simp add: api_generate_def api_generate_json_def split: prod.splits)

theorem gate_released_witness:
  "\<not> lock demo_world
   \<and> \<not> lock (fst (api_generate failing_env demo_form demo_world))
   \<and> \<not> lock (fst (api_generate_json demo_env None demo_world))"
  using gate_released [of demo_world failing_env demo_form demo_env None]
  by (simp add: demo_world_def)

text \<open>
  Claim C2. While the lock is held, a request to either handler is answered with
  status 429 and the error \<^verbatim>\<open>Another job is running\<close>, and the whole state is left
  as it was: no process is spawned, no scratch directory is created, and projects,
  histories and configuration are untouched.
\<close>

theorem busy_rejected:
  "lock w \<Longrightarrow>
     api_generate e req w = (w, Failure 429 ''Another job is running'')
     \<and> api_generate_json e' jreq w = (w, Failure 429 ''Another job is running'')"
  by (simp add: api_generate_def api_generate_json_def)

theorem busy_rejected_witness:
  "lock (demo_world\<lparr>lock := True\<rparr>)
   \<and> api_generate demo_env demo_form (demo_world\<lparr>lock := True\<rparr>)
       = (demo_world\<lparr>lock := True\<rparr>, Failure 429 ''Another job is running'')
   \<and> api_generate_json demo_env (Some empty_json) (demo_world\<lparr>lock := True\<rparr>)
       = (demo_world\<lparr>lock := True\<rparr>, Failure 429 ''Another job is running'')"
  using busy_rejected [of "demo_world\<lparr>lock := True\<rparr>" demo_env demo_form demo_env
      "Some empty_json"]
  by simp

subsection \<open>Command builder\<close>

text \<open>
  Claim C3. For a validated \<^verbatim>\<open>args_map\<close> the command is the interpreter and the
  script followed by exactly: the output directory, the audio length, the repo id, the
  audio reference or else the prompt, the lyrics file when there is one, the chunked
  flag exactly when the boolean is true, the batch count, the steps, and the cfg
  strength printed as a float.
\<close>

theorem build_infer_cmd_vector:
  assumes "validated am"
  shows "build_infer_cmd e am d =
     [sys_executable e, INFER_SCRIPT e]
     @ [''--output-dir'', str_path d,
        ''--audio-length'', str_int (the (am_audio_length am)),
        ''--repo-id'', the (am_repo_id am)]
     @ (case am_ref_audio_path am of
          Some p \<Rightarrow> [''--ref-audio-path'', p]
        | None \<Rightarrow> [''--ref-prompt'', the (am_ref_prompt am)])
     @ (case am_lrc_path am of Some l \<Rightarrow> [''--lrc-path'', l] | None \<Rightarrow> [])
     @ (if the (am_use_chunked am) then [''--chunked''] else [])
     @ [''--batch-infer-num'', str_int (the (am_batch_infer_num am)),
        ''--steps'', str_int (the (am_steps am)),
        ''--cfg-strength'', str_float e (the (am_cfg_strength am))]"
  using assms by (auto simp: validated_def build_infer_cmd_def split: option.splits)

lemma validated_args_map_of:
  "job_ref_audio_path j \<noteq> None \<or> job_ref_prompt j \<noteq> [] \<Longrightarrow> validated (args_map_of j)"
  by (auto simp: validated_def args_map_of_def)

lemma validated_example: "validated (args_map_of (demo_job\<lparr>job_use_chunked := True, job_cfg_strength := Decimal 4 0,
           job_lrc_path := Some ''/srv/gui/uploads/lrc-33334444-song.lrc''\<rparr>))"
  by code_simp

theorem build_infer_cmd_vector_witness:
  "validated (args_map_of (demo_job\<lparr>job_use_chunked := True, job_cfg_strength := Decimal 4 0,
           job_lrc_path := Some ''/srv/gui/uploads/lrc-33334444-song.lrc''\<rparr>))
   \<and> build_infer_cmd demo_env
        (args_map_of (demo_job\<lparr>job_use_chunked := True, job_cfg_strength := Decimal 4 0,
           job_lrc_path := Some ''/srv/gui/uploads/lrc-33334444-song.lrc''\<rparr>))
        [''srv'', ''gui'', ''tmp'', ''run-0a1b2c3d'']
      = [''python3'', ''/srv/infer/infer.py'', ''--output-dir'', ''/srv/gui/tmp/run-0a1b2c3d'',
         ''--audio-length'', ''95'', ''--repo-id'', ''ASLP-lab/DiffRhythm-1_2'',
         ''--ref-prompt'', ''uplifting piano'',
         ''--lrc-path'', ''/srv/gui/uploads/lrc-33334444-song.lrc'', ''--chunked'',
         ''--batch-infer-num'', ''1'', ''--steps'', ''56'', ''--cfg-strength'', ''4.0'']"
proof -
  let ?am = "args_map_of (demo_job\<lparr>job_use_chunked := True, job_cfg_strength := Decimal 4 0,
           job_lrc_path := Some ''/srv/gui/uploads/lrc-33334444-song.lrc''\<rparr>)"
  have v: "validated ?am" by (rule validated_example)
  have r: "[sys_executable demo_env, INFER_SCRIPT demo_env]
     @ [''--output-dir'', str_path [''srv'', ''gui'', ''tmp'', ''run-0a1b2c3d''],
        ''--audio-length'', str_int (the (am_audio_length ?am)),
        ''--repo-id'', the (am_repo_id ?am)]
     @ (case am_ref_audio_path ?am of
          Some p \<Rightarrow> [''--ref-audio-path'', p]
        | None \<Rightarrow> [''--ref-prompt'', the (am_ref_prompt ?am)])
     @ (case am_lrc_path ?am of Some l \<Rightarrow> [''--lrc-path'', l] | None \<Rightarrow> [])
     @ (if the (am_use_chunked ?am) then [''--chunked''] else [])
     @ [''--batch-infer-num'', str_int (the (am_batch_infer_num ?am)),
        ''--steps'', str_int (the (am_steps ?am)),
        ''--cfg-strength'', str_float demo_env (the (am_cfg_strength ?am))]
    = [''python3'', ''/srv/infer/infer.py'', ''--output-dir'', ''/srv/gui/tmp/run-0a1b2c3d'',
         ''--audio-length'', ''95'', ''--repo-id'', ''ASLP-lab/DiffRhythm-1_2'',
         ''--ref-prompt'', ''uplifting piano'',
         ''--lrc-path'', ''/srv/gui/uploads/lrc-33334444-song.lrc'', ''--chunked'',
         ''--batch-infer-num'', ''1'', ''--steps'', ''56'', ''--cfg-strength'', ''4.0'']"
    by code_simp
  show ?thesis
    using build_infer_cmd_vector [OF v, of demo_env "[''srv'', ''gui'', ''tmp'', ''run-0a1b2c3d'']"] v r
    by simp
qed

subsection \<open>Runner and relocator\<close>

lemma file_exists_iff: "file_exists files n \<longleftrightarrow> n \<in> fst ` set files"
  by (simp add: file_exists_def map_of_eq_None_iff)

lemma select_src_exists: "file_exists files (select_src files) \<longleftrightarrow> artifact_present files"
proof (cases "file_exists files ''output.wav''")
  case True
  then show ?thesis
    by (force simp: select_src_def artifact_present_def list_ex_iff file_exists_iff)
next
  case False
  show ?thesis
  proof (cases "filter is_wav (map fst files)")
    case Nil
    then have "\<forall>n \<in> fst ` set files. \<not> is_wav n"
      by (auto simp: filter_empty_conv)
    with False Nil show ?thesis
      by (force simp: select_src_def artifact_present_def list_ex_iff file_exists_iff)
  next
    case (Cons n ns)
    then have "n \<in> set (filter is_wav (map fst files))" by simp
    then have "n \<in> fst ` set files" "is_wav n" by auto
    with False Cons show ?thesis
      by (auto simp: select_src_def artifact_present_def list_ex_iff file_exists_iff)
  qed
qed


lemma run_infer_ready:
  assumes ready: "project_path e (am_project am) (config w) w = (w, Inr pd)"
    and pfiles: "projects w pd = Some pfiles"
    and proc: "run_process e (build_infer_cmd e am (TMP_DIR e @ [run_token_of e])) cuda
               = Inr (rc, out, files)"
  shows "run_infer e am cuda w =
     (w\<lparr>spawned := spawned w @ [build_infer_cmd e am (TMP_DIR e @ [run_token_of e])],
        tmp := (tmp w)(run_token_of e := None),
        projects := (if artifact_present files
                     then (projects w)(pd \<mapsto> pfiles(final_name_of e \<mapsto>
                            the (map_of files (select_src files))))
                     else projects w)\<rparr>,
      Inr \<lparr>ok = artifact_present files \<and> rc = 0,
           returncode = rc,
           logs = prelog_txt e (build_infer_cmd e am (TMP_DIR e @ [run_token_of e])) cuda @ out,
           outfile = (if artifact_present files then str_path (pd @ [final_name_of e]) else []),
           outfile_name = (if artifact_present files then final_name_of e else [])\<rparr>)"
proof -
  define cmd where "cmd = build_infer_cmd e am (TMP_DIR e @ [run_token_of e])"
  define w1 where "w1 = (if tmp w (run_token_of e) \<noteq> None then w
                else w\<lparr>tmp := (tmp w)(run_token_of e \<mapsto> [])\<rparr>)"
  define w2 where "w2 = w1\<lparr>spawned := spawned w1 @ [cmd],
                           tmp := (tmp w1)(run_token_of e \<mapsto> files)\<rparr>"
  have c: "config w2 = config w" and p2: "projects w2 = projects w"
    by (simp_all add: w2_def w1_def)
  from project_path_stable[OF ready p2]
  have pp: "project_path e (am_project am) (config w) w2 = (w2, Inr pd)" .
  have c1: "config w1 = config w" by (simp add: w1_def)
  have pf: "projects w2 pd = Some pfiles" using pfiles by (simp add: p2)
  have proc': "run_process e cmd cuda = Inr (rc, out, files)" using proc by (simp add: cmd_def)
  have w2': "w2 = w\<lparr>spawned := spawned w @ [cmd], tmp := (tmp w)(run_token_of e \<mapsto> files)\<rparr>"
    by (simp add: w2_def w1_def)
  have "run_infer e am cuda w =
     (case (if file_exists files (select_src files)
            then Inr (w2\<lparr>projects := (projects w2)(pd \<mapsto>
                             pfiles(final_name_of e \<mapsto> the (map_of files (select_src files)))),
                         tmp := (tmp w2)(run_token_of e \<mapsto>
                             filter (\<lambda>f. fst f \<noteq> select_src files) files)\<rparr>, True)
            else Inr (w2, False)) of
        Inl x \<Rightarrow> (w2, Inl x)
      | Inr (w4, moved) \<Rightarrow>
          (w4\<lparr>tmp := (tmp w4)(run_token_of e := None)\<rparr>,
           Inr \<lparr>ok = moved \<and> rc = 0, returncode = rc, logs = prelog_txt e cmd cuda @ out,
                outfile = (if moved then str_path (pd @ [final_name_of e]) else []),
                outfile_name = (if moved then final_name_of e else [])\<rparr>))"
    unfolding run_infer_def Let_def cmd_def[symmetric] w1_def[symmetric]
    by (simp add: proc' w2_def[symmetric] c1 pp pf)
  then show ?thesis
    by (simp add: select_src_exists w2' p2[unfolded w2'] cmd_def)
qed

lemma final_name_nonempty: "final_name_of e \<noteq> []"
  by (simp add: final_name_of_def)

lemma str_path_nonempty: "str_path p \<noteq> []"
  by (cases p) (simp_all add: str_path_def)

lemma final_name_not_history: "final_name_of e \<noteq> history_file"
  by (simp add: final_name_of_def history_file_def)

lemma project_path_existing:
  assumes "projects w (cfg_base_dir cfg) \<noteq> None"
    and "projects w (cfg_base_dir cfg @ [''Default'']) \<noteq> None"
    and "fs_resolve e (cfg_base_dir cfg @ path_parts (safe_project_name project)) = p"
    and "cfg_base_dir cfg \<in> set (parents p) \<or> cfg_base_dir cfg = p"
    and "projects w p \<noteq> None"
  shows "project_path e project cfg w = (w, Inr p)"
  using assms(3,4)
  by (auto simp add: project_path_def ensure_project_base_idem[OF assms(1,2)]
      mkdir_exist_ok_idem[OF assms(5)] Let_def)


lemma demo_ready:
  "project_path demo_env (Some ''Default'') demo_config demo_world
     = (demo_world, Inr (demo_base @ [''Default'']))"
proof (rule project_path_existing)
  show "projects demo_world (cfg_base_dir demo_config) \<noteq> None" by code_simp
  show "projects demo_world (cfg_base_dir demo_config @ [''Default'']) \<noteq> None" by code_simp
  show "fs_resolve demo_env (cfg_base_dir demo_config @ path_parts (safe_project_name (Some ''Default'')))
      = demo_base @ [''Default'']" by code_simp
  show "cfg_base_dir demo_config \<in> set (parents (demo_base @ [''Default'']))
      \<or> cfg_base_dir demo_config = demo_base @ [''Default'']" by code_simp
  show "projects demo_world (demo_base @ [''Default'']) \<noteq> None" by code_simp
qed





lemma failing_files:
  "run_process failing_env
     (build_infer_cmd failing_env (args_map_of demo_job) (TMP_DIR failing_env @ [run_token_of failing_env]))
     ''0'' = Inr (1, ''boom'', [(''notes.txt'', ''n''), (''take1.wav'', ''RIFF1''),
                                        (''take2.wav'', ''RIFF2'')])"
  by (simp add: failing_env_def)

lemma failing_ready:
  "project_path failing_env (Some ''Default'') demo_config demo_world
     = (demo_world, Inr (demo_base @ [''Default'']))"
proof (rule project_path_existing)
  show "projects demo_world (cfg_base_dir demo_config) \<noteq> None" by code_simp
  show "projects demo_world (cfg_base_dir demo_config @ [''Default'']) \<noteq> None" by code_simp
  show "fs_resolve failing_env (cfg_base_dir demo_config @ path_parts (safe_project_name (Some ''Default'')))
      = demo_base @ [''Default'']" by code_simp
  show "cfg_base_dir demo_config \<in> set (parents (demo_base @ [''Default'']))
      \<or> cfg_base_dir demo_config = demo_base @ [''Default'']" by code_simp
  show "projects demo_world (demo_base @ [''Default'']) \<noteq> None" by code_simp
qed

lemma demo_project_files: "projects demo_world (demo_base @ [''Default'']) = Some Map.empty"
  by (simp add: demo_world_def demo_base_def)


text \<open>
  Claim C10. With the project directory resolved, a process that exits with a non-zero
  status and leaves an artifact gives a response whose result is not ok, carries the
  status, and names the final path and file name, both non-empty; the artifact is in
  the project directory, and the history file is as it was.
\<close>

theorem failed_run_keeps_artifact:
  assumes "project_path e (Some (job_project j)) (config w) w = (w, Inr (job_project_dir j))"
    and "projects w (job_project_dir j) = Some pfiles"
    and "run_process e (build_infer_cmd e (args_map_of j) (TMP_DIR e @ [run_token_of e]))
           (job_cuda j) = Inr (rc, out, files)"
    and "rc \<noteq> 0"
    and "artifact_present files"
  shows "\<exists>w' r. finish_generate e j w = (w', Inr (Completed r))
           \<and> \<not> ok r \<and> returncode r = rc
           \<and> outfile r = str_path (job_project_dir j @ [final_name_of e]) \<and> outfile r \<noteq> []
           \<and> outfile_name r = final_name_of e \<and> outfile_name r \<noteq> []
           \<and> projects w' (job_project_dir j)
               = Some (pfiles(final_name_of e \<mapsto> the (map_of files (select_src files))))
           \<and> (pfiles(final_name_of e \<mapsto> the (map_of files (select_src files)))) history_file
               = pfiles history_file
           \<and> read_history e (pfiles(final_name_of e \<mapsto> the (map_of files (select_src files))))
               = read_history e pfiles"
proof -
  have a: "am_project (args_map_of j) = Some (job_project j)" by (simp add: args_map_of_def)
  note run = run_infer_ready[of e "args_map_of j" w "job_project_dir j" pfiles "job_cuda j" rc out files,
      unfolded a, OF assms(1,2,3)]
  show ?thesis
    using assms(4,5) final_name_not_history[of e]
    by (simp add: finish_generate_def run read_history_def final_name_nonempty str_path_nonempty)
qed

theorem failed_run_keeps_artifact_witness:
  "project_path failing_env (Some (job_project demo_job)) (config demo_world) demo_world
     = (demo_world, Inr (job_project_dir demo_job))
   \<and> (1::int) \<noteq> 0
   \<and> artifact_present [(''notes.txt'', ''n''), (''take1.wav'', ''RIFF1''), (''take2.wav'', ''RIFF2'')]
   \<and> snd (finish_generate failing_env demo_job demo_world)
       = Inr (Completed \<lparr>ok = False, returncode = 1, logs = ''DR-GUI CMDboom'',
                outfile = ''/srv/gui/projects/Default/output-20250309-070500.wav'',
                outfile_name = ''output-20250309-070500.wav''\<rparr>)
   \<and> projects (fst (finish_generate failing_env demo_job demo_world)) (demo_base @ [''Default''])
       = Some [''output-20250309-070500.wav'' \<mapsto> ''RIFF1'']
   \<and> read_history failing_env [''output-20250309-070500.wav'' \<mapsto> ''RIFF1''] = JList []"
proof -
  let ?files = "[(''notes.txt'', ''n''), (''take1.wav'', ''RIFF1''), (''take2.wav'', ''RIFF2'')]"
  have c: "config demo_world = demo_config" by (simp add: demo_world_def)
  have jp: "job_project demo_job = ''Default''" "job_project_dir demo_job = demo_base @ [''Default'']"
    "job_cuda demo_job = ''0''"
    by (simp_all add: demo_job_def)
  have r: "project_path failing_env (Some (job_project demo_job)) (config demo_world) demo_world
     = (demo_world, Inr (job_project_dir demo_job))"
    using failing_ready by (simp add: c jp)
  have f: "projects demo_world (job_project_dir demo_job) = Some Map.empty"
    using demo_project_files by (simp add: jp)
  have pr: "run_process failing_env
     (build_infer_cmd failing_env (args_map_of demo_job) (TMP_DIR failing_env @ [run_token_of failing_env]))
     (job_cuda demo_job) = Inr (1, ''boom'', ?files)"
    using failing_files by (simp add: jp)
  have p: "artifact_present ?files" by code_simp
  have s: "the (map_of ?files (select_src ?files)) = ''RIFF1''" by code_simp
  have n: "final_name_of failing_env = ''output-20250309-070500.wav''"
    by code_simp
  have sn: "snd (finish_generate failing_env demo_job demo_world)
       = Inr (Completed \<lparr>ok = False, returncode = 1, logs = ''DR-GUI CMDboom'',
                outfile = ''/srv/gui/projects/Default/output-20250309-070500.wav'',
                outfile_name = ''output-20250309-070500.wav''\<rparr>)"
    by code_simp
  from failed_run_keeps_artifact [OF r f pr _ p]
  obtain w' r' where "finish_generate failing_env demo_job demo_world = (w', Inr (Completed r'))"
    and "projects w' (job_project_dir demo_job)
               = Some (Map.empty(final_name_of failing_env \<mapsto> the (map_of ?files (select_src ?files))))"
    and "read_history failing_env (Map.empty(final_name_of failing_env \<mapsto> the (map_of ?files (select_src ?files))))
               = read_history failing_env Map.empty"
    by auto
  then have "projects (fst (finish_generate failing_env demo_job demo_world))
               (demo_base @ [''Default''])
       = Some [''output-20250309-070500.wav'' \<mapsto> ''RIFF1'']"
    and "read_history failing_env [''output-20250309-070500.wav'' \<mapsto> ''RIFF1'']
       = read_history failing_env Map.empty"
    unfolding s n jp by simp_all
  then show ?thesis using r p sn by (simp add: read_history_def)
qed

subsection \<open>History ledger\<close>

lemma digit_char_table:
  "\<forall>n \<in> set [0..<10]. (of_char (digit_char n) :: nat) = 48 + n"
  by code_simp

lemma of_char_digit_char: "(of_char (digit_char n) :: nat) = 48 + n mod 10"
proof -
  have "n mod 10 \<in> set [0..<10]" by simp
  with digit_char_table have "(of_char (digit_char (n mod 10)) :: nat) = 48 + n mod 10"
    by blast
  then show ?thesis by (simp add: digit_char_def)
qed

lemma is_digit_digit_char: "is_digit (digit_char n)"
  by (simp add: is_digit_def of_char_digit_char)

lemma str_nat_digits: "list_all is_digit (str_nat n) \<and> str_nat n \<noteq> []"
proof (induction n rule: str_nat.induct)
  case (1 n)
  show ?case
  proof (cases "n < 10")
    case True
    then show ?thesis by (simp add: str_nat.simps[of n] is_digit_digit_char)
  next
    case False
    with 1 show ?thesis by (simp add: str_nat.simps[of n] is_digit_digit_char)
  qed
qed

lemma digits_value_snoc:
  "is_digit c \<Longrightarrow> digits_value (s @ [c]) = 10 * digits_value s + ((of_char c :: nat) - 48)"
  by (simp add: digits_value_def)

lemma digits_value_str_nat: "digits_value (str_nat n) = n"
proof (induction n rule: str_nat.induct)
  case (1 n)
  show ?case
  proof (cases "n < 10")
    case True
    then show ?thesis
      by (simp add: str_nat.simps[of n] digits_value_def is_digit_digit_char of_char_digit_char)
  next
    case False
    with 1 have "digits_value (str_nat (n div 10)) = n div 10" by simp
    with False show ?thesis
      by (simp add: str_nat.simps[of n] digits_value_snoc is_digit_digit_char of_char_digit_char)
  qed
qed

lemma not_digit_bar: "\<not> is_digit CHR ''|''"
  by (simp add: is_digit_def)

lemma dec_nat_enc_nat: "dec_nat (enc_nat n @ r) = Some (n, r)"
proof -
  have d: "\<And>x. x \<in> set (str_nat n) \<Longrightarrow> is_digit x"
    using str_nat_digits[of n] by (simp add: list_all_iff)
  have t: "takeWhile is_digit (str_nat n @ CHR ''|'' # r) = str_nat n"
    using d by (simp add: not_digit_bar)
  have dr: "dropWhile is_digit (str_nat n @ CHR ''|'' # r) = CHR ''|'' # r"
    using d by (simp add: not_digit_bar)
  show ?thesis
    using str_nat_digits[of n]
    by (simp add: dec_nat_def enc_nat_def t dr digits_value_str_nat Let_def)
qed

lemma dec_int_enc_int: "dec_int (enc_int i @ r) = Some (i, r)"
  by (simp add: dec_int_def enc_int_def dec_nat_enc_nat)

lemma dec_str_enc_str: "dec_str (enc_str s @ r) = Some (s, r)"
  by (simp add: dec_str_def enc_str_def dec_nat_enc_nat)

lemma dec_opt_enc_opt: "dec_opt (enc_opt v @ r) = Some (v, r)"
  by (cases v) (simp_all add: dec_opt_def enc_opt_def dec_str_enc_str)

lemma dec_bool_enc_bool: "dec_bool (enc_bool b @ r) = Some (b, r)"
  by (simp add: dec_bool_def enc_bool_def)

lemma dec_decimal_enc_decimal: "dec_decimal (enc_decimal x @ r) = Some (x, r)"
  by (cases x) (simp add: dec_decimal_def dec_int_enc_int dec_nat_enc_nat)

lemma dec_entry_enc_entry: "dec_entry (enc_entry x @ r) = Some (x, r)"
  by (simp add: dec_entry_def enc_entry_def dec_int_enc_int dec_str_enc_str dec_opt_enc_opt
      dec_bool_enc_bool dec_decimal_enc_decimal)

lemma dec_item_enc_item: "dec_item (enc_item x @ r) = Some (x, r)"
  by (cases x) (simp_all add: dec_item_def enc_item_def dec_entry_enc_entry dec_str_enc_str)

lemma dec_items_enc: "dec_items (length xs) (concat (map enc_item xs) @ r) = Some (xs, r)"
  by (induction xs) (simp_all add: dec_item_enc_item)

lemma demo_list_dumps: "demo_list (demo_dumps xs) = Some xs"
  using dec_items_enc[of xs "[]"]
  by (simp add: demo_list_def demo_dumps_def dec_nat_enc_nat)

lemma demo_codec: "demo_loads (demo_dumps xs) = Some (JList xs)"
  by (simp add: demo_loads_def demo_list_dumps)

lemma demo_env_codec: "json_loads demo_env (json_dumps demo_env xs) = Some (JList xs)"
  by (simp add: demo_env_def demo_codec)


lemma demo_loads_object: "demo_loads ''{}'' = Some (JOther ''{}'')"
  by (simp add: demo_loads_def demo_list_def dec_nat_def is_digit_def)


lemma write_history_eq:
  "write_history e files items = files(history_file \<mapsto> json_dumps e items)"
  by (simp add: write_history_def write_history_states_def write_text_states_def)

lemma read_write_history:
  assumes "\<And>xs. json_loads e (json_dumps e xs) = Some (JList xs)"
  shows "read_history e (write_history e files items) = JList items"
  by (simp add: write_history_eq read_history_def assms)

lemma append_history_list:
  assumes "read_history e files = JList h"
  shows "append_history e files x
           = Inr (files(history_file \<mapsto> json_dumps e (h @ [Entry x])))"
  by (simp add: append_history_def assms write_history_eq)

lemma read_append_history:
  assumes "\<And>xs. json_loads e (json_dumps e xs) = Some (JList xs)"
    and "read_history e files = JList h"
  shows "\<exists>files'. append_history e files x = Inr files'
           \<and> read_history e files' = JList (h @ [Entry x])"
  using read_write_history[OF assms(1), of files "h @ [Entry x]"]
  by (simp add: append_history_def assms(2))

lemma read_appends:
  assumes "\<And>xs. json_loads e (json_dumps e xs) = Some (JList xs)"
    and "read_history e files = JList h"
  shows "\<exists>files'. append_all e files es = Inr files'
           \<and> read_history e files' = JList (h @ map Entry es)"
  using assms(2)
proof (induction es arbitrary: files h)
  case Nil
  then show ?case by simp
next
  case (Cons x es)
  from read_append_history[OF assms(1) Cons.prems, of x]
  obtain f1 where f1: "append_history e files x = Inr f1"
    "read_history e f1 = JList (h @ [Entry x])"
    by blast
  from Cons.IH[OF f1(2)] f1(1) show ?case by simp
qed

text \<open>
  Claim C8, as stated, fails in two ways. A ledger that already holds an entry reads
  back, after one append, as the old entry followed by the new one, not as the new one
  alone. And a ledger whose file holds JSON that is not a list cannot be appended to:
  the append raises before it writes, the handler answers 500 (with the artifact
  already moved), and the file is as it was.
\<close>

theorem history_round_trip_counterexample:
  "read_history demo_env demo_ledger = JList [Entry demo_entry]
   \<and> map_sum id (read_history demo_env) (append_all demo_env demo_ledger [demo_entry])
       = Inr (JList [Entry demo_entry, Entry demo_entry])
   \<and> JList [Entry demo_entry, Entry demo_entry] \<noteq> (JList [Entry demo_entry] :: decimal jdoc)
   \<and> read_history demo_env object_ledger = JOther ''{}''
   \<and> append_all demo_env object_ledger [demo_entry] = Inl (OtherError ''AttributeError'')"
proof -
  have l: "read_history demo_env demo_ledger = JList [Entry demo_entry]"
    by (simp add: read_history_def demo_ledger_def demo_env_def demo_codec)
  from read_appends[of demo_env demo_ledger "[Entry demo_entry]" "[demo_entry]",
      OF demo_env_codec l]
  have a: "map_sum id (read_history demo_env) (append_all demo_env demo_ledger [demo_entry])
       = Inr (JList [Entry demo_entry, Entry demo_entry])"
    by auto
  have o: "read_history demo_env object_ledger = JOther ''{}''"
    by (simp add: read_history_def object_ledger_def demo_env_def demo_loads_object)
  then have "append_all demo_env object_ledger [demo_entry] = Inl (OtherError ''AttributeError'')"
    by (simp add: append_history_def)
  with l a o show ?thesis by simp
qed

lemma object_ledger_response:
  "snd (api_generate demo_env demo_form object_world)
     = Failure 500 ''Generation failed: AttributeError''
   \<and> map_option (\<lambda>files. (files history_file, files ''output-20250309-070500.wav''))
        (projects (fst (api_generate demo_env demo_form object_world))
           (demo_base @ [''Default'']))
      = Some (Some ''{}'', Some ''RIFF'')"
  by code_simp

text \<open>
  Claim C8, amended. For a codec whose \<open>json_loads\<close> inverts its \<open>json_dumps\<close> and
  a ledger that reads as a list (its file is missing, does not parse, or holds a
  list), appending entries one after the other succeeds, and reading the ledger then
  gives what it held before followed by the entries, in order: exactly the entries
  when it held nothing. Each append writes the whole file: the stored sequence with the
  new entry at its end.
\<close>

theorem history_round_trip:
  assumes "\<And>xs. json_loads e (json_dumps e xs) = Some (JList xs)"
    and "read_history e files = JList h"
  shows "(\<exists>files'. append_all e files es = Inr files'
            \<and> read_history e files' = JList (h @ map Entry es))
     \<and> (h = [] \<longrightarrow>
          (\<exists>files'. append_all e files es = Inr files'
             \<and> read_history e files' = JList (map Entry es)))
     \<and> append_history e files x
         = Inr (files(history_file \<mapsto> json_dumps e (h @ [Entry x])))"
  using read_appends[OF assms, of es] append_history_list[OF assms(2), of x]
  by auto

theorem history_round_trip_witness:
  "(\<forall>xs. json_loads demo_env (json_dumps demo_env xs) = Some (JList xs))
   \<and> read_history demo_env Map.empty = JList []
   \<and> (\<exists>files'. append_all demo_env Map.empty
          [demo_entry, demo_entry\<lparr>h_ts := 1741503999, h_file := ''output-20250309-070639.wav''\<rparr>]
          = Inr files'
        \<and> read_history demo_env files'
            = JList [Entry demo_entry,
                 Entry (demo_entry\<lparr>h_ts := 1741503999,
                                    h_file := ''output-20250309-070639.wav''\<rparr>)])"
proof -
  have e: "read_history demo_env Map.empty = JList []" by (simp add: read_history_def)
  have c: "\<forall>xs. json_loads demo_env (json_dumps demo_env xs) = Some (JList xs)"
    by (simp add: demo_env_codec)
  from history_round_trip [of demo_env Map.empty "[]"
      "[demo_entry, demo_entry\<lparr>h_ts := 1741503999, h_file := ''output-20250309-070639.wav''\<rparr>]"
      demo_entry, OF demo_env_codec e]
  have "\<exists>files'. append_all demo_env Map.empty
          [demo_entry, demo_entry\<lparr>h_ts := 1741503999, h_file := ''output-20250309-070639.wav''\<rparr>]
          = Inr files'
        \<and> read_history demo_env files'
            = JList (map Entry
                [demo_entry,
                 demo_entry\<lparr>h_ts := 1741503999, h_file := ''output-20250309-070639.wav''\<rparr>])"
    by blast
  then have "\<exists>files'. append_all demo_env Map.empty
          [demo_entry, demo_entry\<lparr>h_ts := 1741503999, h_file := ''output-20250309-070639.wav''\<rparr>]
          = Inr files'
        \<and> read_history demo_env files'
            = JList [Entry demo_entry,
                 Entry (demo_entry\<lparr>h_ts := 1741503999,
                                    h_file := ''output-20250309-070639.wav''\<rparr>)]"
    by (simp only: list.map)
  with e c show ?thesis by blast
qed




subsection \<open>Requests without a reference\<close>


















subsection \<open>The sanitiser on a file system without links\<close>

text \<open>
  Replacing \<^verbatim>\<open>..\<close> leaves no two dots side by side, so no component of the
  sanitised name is \<^verbatim>\<open>..\<close>; where \<^verbatim>\<open>resolve\<close> follows no links the guard
  never fires, and the path is the base followed by the components of the name.
\<close>

lemma sublist_strip_chars: "sublist (strip_chars P s) s"
proof -
  have "sublist (dropWhile P (rev (dropWhile P s))) (rev (dropWhile P s))" by simp
  then have "sublist (strip_chars P s) (dropWhile P s)"
    by (simp add: strip_chars_def sublist_rev_left)
  moreover have "sublist (dropWhile P s) s" by simp
  ultimately show ?thesis using sublist_order.order_trans by blast
qed

lemma dotdot_Cons: "a \<noteq> CHR ''.'' \<Longrightarrow> sublist ''..'' (a # s) \<longleftrightarrow> sublist ''..'' s"
  by (simp add: sublist_Cons_right)

lemma py_replace_dotdot_unfold:
  "py_replace ''..'' [] [] = []"
  "py_replace ''..'' [] [a] = [a]"
  "py_replace ''..'' [] (a # b # t) =
     (if a = CHR ''.'' \<and> b = CHR ''.'' then py_replace ''..'' [] t
      else a # py_replace ''..'' [] (b # t))"
proof -
  show e: "py_replace ''..'' [] [] = []"
    using py_replace.simps[of "''..''" "[]" "[]"] by simp
  show "py_replace ''..'' [] [a] = [a]"
    using py_replace.simps[of "''..''" "[]" "[a]"] e by simp
  show "py_replace ''..'' [] (a # b # t) =
     (if a = CHR ''.'' \<and> b = CHR ''.'' then py_replace ''..'' [] t
      else a # py_replace ''..'' [] (b # t))"
    using py_replace.simps[of "''..''" "[]" "a # b # t"] by simp
qed

lemma py_replace_dotdot: "\<not> sublist ''..'' (py_replace ''..'' [] s)"
proof (induction s rule: length_induct)
  case (1 s)
  show ?case
  proof (cases s)
    case Nil
    then show ?thesis by (simp add: py_replace_dotdot_unfold)
  next
    case (Cons a t)
    note s = Cons
    show ?thesis
    proof (cases t)
      case Nil
      with s show ?thesis by (simp add: py_replace_dotdot_unfold sublist_Cons_right)
    next
      case (Cons b u)
      have ihu: "\<not> sublist ''..'' (py_replace ''..'' [] u)" using 1 s Cons by simp
      have iht: "\<not> sublist ''..'' (py_replace ''..'' [] (b # u))" using 1 s Cons by simp
      show ?thesis
      proof (cases "a = CHR ''.'' \<and> b = CHR ''.''")
        case True
        with s Cons ihu show ?thesis by (simp add: py_replace_dotdot_unfold)
      next
        case False
        then have r: "py_replace ''..'' [] s = a # py_replace ''..'' [] (b # u)"
          using s Cons by (auto simp: py_replace_dotdot_unfold)
        show ?thesis
        proof (cases "a = CHR ''.''")
          case False
          with iht r show ?thesis by (simp add: dotdot_Cons)
        next
          case True
          with \<open>\<not> (a = CHR ''.'' \<and> b = CHR ''.'')\<close> have b: "b \<noteq> CHR ''.''" by simp
          have "\<exists>v. py_replace ''..'' [] (b # u) = b # v"
            using b by (cases u) (simp_all add: py_replace_dotdot_unfold)
          then obtain v where v: "py_replace ''..'' [] (b # u) = b # v" by blast
          with iht r b show ?thesis by (simp add: sublist_Cons_right)
        qed
      qed
    qed
  qed
qed

lemma py_replace_char: "py_replace [c] [d] s = map (\<lambda>x. if x = c then d else x) s"
proof (induction s)
  case Nil
  show ?case using py_replace.simps[of "[c]" "[d]" "[]"] by simp
next
  case (Cons a s)
  show ?case using py_replace.simps[of "[c]" "[d]" "a # s"] Cons by simp
qed

lemma dotdot_map:
  assumes "\<And>x. f x = CHR ''.'' \<Longrightarrow> x = CHR ''.''"
  shows "sublist ''..'' (map f s) \<Longrightarrow> sublist ''..'' s"
proof -
  assume "sublist ''..'' (map f s)"
  from sublist_map_rightE[OF this] obtain xs where xs: "sublist xs s" "map f xs = ''..''"
    by metis
  from xs(2) obtain x y where xy: "xs = [x, y]" "f x = CHR ''.''" "f y = CHR ''.''"
    by (auto simp: map_eq_Cons_conv)
  then have "xs = ''..''" using assms by simp
  with xs(1) show ?thesis by simp
qed

lemma sublist_split_on: "c \<in> set (split_on ch s) \<Longrightarrow> sublist c s"
proof (induction s arbitrary: c)
  case Nil
  then show ?case by simp
next
  case (Cons x xs)
  show ?case
  proof (cases "x = ch")
    case True
    with Cons show ?thesis by (auto simp: sublist_Cons_right)
  next
    case False
    obtain w ws where sp: "split_on ch xs = w # ws"
      by (cases "split_on ch xs") (cases xs; auto split: if_splits list.splits)+
    have pw: "prefix w xs"
      using sp
    proof (induction xs arbitrary: w ws)
      case Nil
      then show ?case by simp
    next
      case (Cons y ys)
      then show ?case by (auto split: if_splits list.splits)
    qed
    from Cons.prems False sp have "c = x # w \<or> c \<in> set ws" by auto
    then show ?thesis
    proof
      assume "c = x # w"
      with pw show ?thesis by (simp add: sublist_Cons_right)
    next
      assume "c \<in> set ws"
      with sp have "c \<in> set (split_on ch xs)" by simp
      from Cons.IH[OF this] show ?thesis by (simp add: sublist_Cons_right)
    qed
  qed
qed

lemma safe_project_name_no_dotdot: "''..'' \<notin> set (path_parts (safe_project_name project))"
proof
  assume a: "''..'' \<in> set (path_parts (safe_project_name project))"
  then have s: "sublist ''..'' (safe_project_name project)"
    by (auto simp: path_parts_def dest: sublist_split_on)
  define s0 where "s0 = py_strip (case project of None \<Rightarrow> ''Default''
               | Some t \<Rightarrow> if t = [] then ''Default'' else t)"
  define safe where "safe = strip_slash (py_replace [CHR 0x5C] ''/'' (py_replace ''..'' [] s0))"
  have n: "\<not> sublist ''..'' safe"
  proof
    assume "sublist ''..'' safe"
    then have "sublist ''..'' (py_replace [CHR 0x5C] ''/'' (py_replace ''..'' [] s0))"
      unfolding safe_def strip_slash_def
      using sublist_strip_chars sublist_order.order_trans by blast
    then have "sublist ''..'' (py_replace ''..'' [] s0)"
      unfolding py_replace_char by (rule dotdot_map[rotated]) (auto split: if_splits)
    then show False by (simp add: py_replace_dotdot)
  qed
  have "safe_project_name project = (if safe = [] then ''Default'' else safe)"
    by (simp add: safe_project_name_def safe_def s0_def Let_def)
  with s n show False by (auto split: if_splits simp: sublist_Cons_right)
qed

lemma lexical_resolve_plain:
  "''..'' \<notin> set cs \<Longrightarrow> lexical_resolve acc cs = rev acc @ cs"
  by (induction cs arbitrary: acc) auto

lemma prefix_parents: "p = b @ q \<Longrightarrow> b \<in> set (parents p) \<or> b = p"
proof (cases q)
  case Nil
  assume "p = b @ q"
  with Nil show ?thesis by simp
next
  case (Cons x xs)
  assume "p = b @ q"
  with Cons have "take (length b) p = b" "length b < length p" by simp_all
  then have "b \<in> (\<lambda>n. take n p) ` {0..<length p}" by (metis atLeastLessThan_iff image_eqI le0)
  then show ?thesis by (simp add: parents_def)
qed

lemma project_path_no_create_lexical:
  "project_path_no_create (lexical_resolve []) base project
     = Inr (base @ path_parts (safe_project_name project))"
  if "''..'' \<notin> set base"
proof -
  have "''..'' \<notin> set (base @ path_parts (safe_project_name project))"
    using that safe_project_name_no_dotdot by simp
  then have "lexical_resolve [] (base @ path_parts (safe_project_name project))
      = base @ path_parts (safe_project_name project)"
    by (simp add: lexical_resolve_plain)
  then show ?thesis
    using prefix_parents[of "base @ path_parts (safe_project_name project)" base]
    by (auto simp: project_path_no_create_def Let_def)
qed

subsection \<open>File names and a run that fails\<close>

lemma example_failure:
  "snd (api_generate failing_env demo_form demo_world)
     = Completed \<lparr>ok = False, returncode = 1, logs = ''DR-GUI CMDboom'',
          outfile = ''/srv/gui/projects/Default/output-20250309-070500.wav'',
          outfile_name = ''output-20250309-070500.wav''\<rparr>
   \<and> map_option (\<lambda>files. (files history_file, files ''output-20250309-070500.wav''))
        (projects (fst (api_generate failing_env demo_form demo_world)) (demo_base @ [''Default'']))
      = Some (None, Some ''RIFF1'')
   \<and> \<not> lock (fst (api_generate failing_env demo_form demo_world))
   \<and> tmp (fst (api_generate failing_env demo_form demo_world)) ''run-0a1b2c3d'' = None"
  by code_simp

lemma str_nat_length: "n < 10 ^ k \<Longrightarrow> 0 < k \<Longrightarrow> length (str_nat n) \<le> k"
proof (induction k arbitrary: n)
  case 0
  then show ?case by simp
next
  case (Suc k)
  show ?case
  proof (cases "n < 10")
    case True
    then show ?thesis by (simp add: str_nat.simps[of n])
  next
    case False
    then have k: "0 < k" using Suc.prems(1) by (cases k) auto
    have "n div 10 < 10 ^ k" using Suc.prems(1) by (simp add: less_mult_imp_div_less mult.commute)
    from Suc.IH[OF this k] False show ?thesis by (simp add: str_nat.simps[of n])
  qed
qed

lemma zero_pad_digits:
  assumes "n < 10 ^ k" "0 < k"
  shows "length (zero_pad k (str_nat n)) = k \<and> list_all is_digit (zero_pad k (str_nat n))"
proof -
  have z: "is_digit CHR ''0''" by (simp add: is_digit_def)
  show ?thesis
    using str_nat_length[OF assms] str_nat_digits[of n] z
    by (auto simp: zero_pad_def list_all_iff)
qed

lemma timestamp_str_shape:
  assumes "dt_year t < 10000" "dt_month t < 100" "dt_day t < 100" "dt_hour t < 100"
    "dt_minute t < 100" "dt_second t < 100"
  shows "\<exists>d c. timestamp_str t = d @ ''-'' @ c \<and> length d = 8 \<and> length c = 6
           \<and> list_all is_digit d \<and> list_all is_digit c"
proof -
  have y: "length (zero_pad 4 (str_nat (dt_year t))) = 4
      \<and> list_all is_digit (zero_pad 4 (str_nat (dt_year t)))"
    using zero_pad_digits[of "dt_year t" 4] assms(1) by simp
  have r: "\<And>n. n < 100 \<Longrightarrow> length (zero_pad 2 (str_nat n)) = 2
      \<and> list_all is_digit (zero_pad 2 (str_nat n))"
    using zero_pad_digits[of _ 2] by simp
  let ?d = "zero_pad 4 (str_nat (dt_year t)) @ zero_pad 2 (str_nat (dt_month t))
     @ zero_pad 2 (str_nat (dt_day t))"
  let ?c = "zero_pad 2 (str_nat (dt_hour t))
     @ zero_pad 2 (str_nat (dt_minute t)) @ zero_pad 2 (str_nat (dt_second t))"
  have "timestamp_str t = ?d @ ''-'' @ ?c" by (simp add: timestamp_str_def)
  moreover have "length ?d = 8 \<and> length ?c = 6 \<and> list_all is_digit ?d \<and> list_all is_digit ?c"
    using y r[OF assms(2)] r[OF assms(3)] r[OF assms(4)] r[OF assms(5)] r[OF assms(6)]
    by simp
  ultimately show ?thesis by blast
qed

subsection \<open>What the handlers hand to the runner\<close>

text \<open>
  A completed response of either handler comes from \<open>finish_generate\<close>, on a job
  whose \<^verbatim>\<open>args_map\<close> is validated and whose project directory is resolved, in a
  state with the processes and scratch directories the request found.
\<close>

lemma form_rest_finish:
  assumes "form_rest e req cfg project mode ref_mode ref_prompt rap rae pd w
             = (w', Inr (Completed res))"
  shows "\<exists>j w2. finish_generate e j w2 = (w', Inr (Completed res))
           \<and> job_project j = project \<and> job_project_dir j = pd
           \<and> job_ref_prompt j = ref_prompt \<and> job_ref_audio_path j = rap
           \<and> projects w2 = projects w \<and> config w2 = config w
           \<and> spawned w2 = spawned w \<and> tmp w2 = tmp w \<and> lock w2 = lock w"
proof -
  define lr where "lr = (if mode = ''advanced''
            then (case f_lrc_file req of
                    None \<Rightarrow> (w, None)
                  | Some file \<Rightarrow>
                      if fst file \<noteq> []
                      then (case save_upload e (''lrc-'' @ uuid_lrc e) file w of
                              (w', p) \<Rightarrow> (w', Some (str_path p)))
                      else (w, None))
            else (w, None))"
  obtain w1 lrc_path where lr': "lr = (w1, lrc_path)" by (cases lr)
  have f: "projects w1 = projects w \<and> config w1 = config w \<and> spawned w1 = spawned w
      \<and> tmp w1 = tmp w \<and> lock w1 = lock w"
    using lr' by (auto simp: lr_def save_upload_def Let_def split: if_splits option.splits)
  from assms have "(case form_params e req cfg mode of
             Inl x \<Rightarrow> (w1, Inl x)
           | Inr (repo_id, audio_length, batch_infer_num, use_chunked, steps, cfg_strength,
                  cuda) \<Rightarrow>
               finish_generate e
                 \<lparr>job_project = project, job_mode = mode, job_ref_mode = ref_mode,
                  job_ref_prompt = ref_prompt, job_ref_audio_path = rap,
                  job_ref_audio_existing = rae, job_lrc_path = lrc_path,
                  job_repo_id = repo_id, job_audio_length = audio_length,
                  job_batch_infer_num = batch_infer_num, job_use_chunked = use_chunked,
                  job_steps = steps, job_cfg_strength = cfg_strength, job_cuda = cuda,
                  job_project_dir = pd\<rparr> w1) = (w', Inr (Completed res))"
    unfolding form_rest_def lr_def[symmetric] lr' by simp
  then obtain j where "finish_generate e j w1 = (w', Inr (Completed res))"
    "job_project j = project" "job_project_dir j = pd" "job_ref_prompt j = ref_prompt"
    "job_ref_audio_path j = rap"
    by (auto split: sum.splits prod.splits)
  with f show ?thesis by blast
qed

lemma api_generate_body_finish:
  assumes "api_generate_body e req w = (w', Inr (Completed res))"
  shows "\<exists>j w2. finish_generate e j w2 = (w', Inr (Completed res))
           \<and> project_path e (Some (job_project j)) (config w2) w2
               = (w2, Inr (job_project_dir j))
           \<and> validated (args_map_of j)
           \<and> spawned w2 = spawned w \<and> tmp w2 = tmp w \<and> lock w2 = lock w"
proof -
  let ?project = "form_project req (config w)"
  obtain w1 r where pp: "project_path e (Some ?project) (config w) w = (w1, r)"
    by (cases "project_path e (Some ?project) (config w) w")
  note fl = project_path_fields[OF pp]
  from assms pp obtain pd where r: "r = Inr pd"
    by (cases r) (auto simp: api_generate_body_def form_project_def Let_def)
  from assms pp r obtain ref_mode ref_prompt rap rae w1' where
    fr: "form_rest e req (config w) ?project (get_or (f_mode req) ''simple'') ref_mode ref_prompt
           rap rae pd w1' = (w', Inr (Completed res))"
    and v: "rap \<noteq> None \<or> ref_prompt \<noteq> []"
    and w1': "projects w1' = projects w1" "config w1' = config w1" "spawned w1' = spawned w1"
      "tmp w1' = tmp w1" "lock w1' = lock w1"
    by (auto simp: api_generate_body_def form_project_def Let_def save_upload_def
        split: if_splits option.splits prod.splits)
  from form_rest_finish[OF fr] obtain j w2 where
    j: "finish_generate e j w2 = (w', Inr (Completed res))"
      "job_project j = ?project" "job_project_dir j = pd"
      "job_ref_prompt j = ref_prompt" "job_ref_audio_path j = rap"
      "projects w2 = projects w1'" "config w2 = config w1'"
      "spawned w2 = spawned w1'" "tmp w2 = tmp w1'" "lock w2 = lock w1'"
    by blast
  have "projects w2 = projects w1" using j(6) w1'(1) by simp
  from project_path_stable[OF pp[unfolded r] this]
  have "project_path e (Some (job_project j)) (config w2) w2 = (w2, Inr (job_project_dir j))"
    using j(2,3,7) w1'(2) fl(2) by simp
  moreover have "validated (args_map_of j)"
    using v j(4,5) by (auto simp: validated_def args_map_of_def)
  ultimately show ?thesis using j(1,8,9,10) w1' fl by auto
qed


lemma save_b64_frame:
  assumes "save_b64 e d fn w = (w', r)"
  shows "projects w' = projects w \<and> config w' = config w \<and> spawned w' = spawned w
      \<and> tmp w' = tmp w \<and> lock w' = lock w"
  using assms by (auto simp: save_b64_def Let_def split: option.splits)

lemma save_from_url_frame:
  assumes "save_from_url e u fn w = (w', r)"
  shows "projects w' = projects w \<and> config w' = config w \<and> spawned w' = spawned w
      \<and> tmp w' = tmp w \<and> lock w' = lock w"
  using assms by (auto simp: save_from_url_def Let_def split: if_splits sum.splits)

lemma json_rest_finish:
  assumes "json_rest e req project mode ref_mode ref_prompt rap params pd w
             = (w', Inr (Completed res))"
  shows "\<exists>j w2. finish_generate e j w2 = (w', Inr (Completed res))
           \<and> job_project j = project \<and> job_project_dir j = pd
           \<and> job_ref_prompt j = ref_prompt \<and> job_ref_audio_path j = rap
           \<and> projects w2 = projects w \<and> config w2 = config w
           \<and> spawned w2 = spawned w \<and> tmp w2 = tmp w \<and> lock w2 = lock w"
proof -
  define lr where "lr = (if truthy (j_lrc_b64 req)
            then (case save_b64 e (the (j_lrc_b64 req))
                         (if truthy (j_lrc_filename req) then the (j_lrc_filename req)
                          else ''lyrics.lrc'') w of
                    (w', Inl x) \<Rightarrow> (w', Inl x)
                  | (w', Inr p) \<Rightarrow> (w', Inr (Inr (Some (str_path p)))))
            else if truthy (j_lrc_url req)
            then (if \<not> requests_installed e
                  then (w, Inr (Inl (Failure 400 ''requests not installed; cannot fetch URLs'')))
                  else (case save_from_url e (the (j_lrc_url req)) (j_lrc_filename req) w of
                          (w', Inl x) \<Rightarrow> (w', Inl x)
                        | (w', Inr p) \<Rightarrow> (w', Inr (Inr (Some (str_path p))))))
            else (w, Inr (Inr None)))"
  obtain w1 l where lr': "lr = (w1, l)" by (cases lr)
  have f: "projects w1 = projects w \<and> config w1 = config w \<and> spawned w1 = spawned w
      \<and> tmp w1 = tmp w \<and> lock w1 = lock w"
    using lr'
    by (auto simp: lr_def split: if_splits prod.splits sum.splits
        dest!: save_b64_frame save_from_url_frame)
  from assms have "(case l of
        Inl x \<Rightarrow> (w1, Inl x)
      | Inr (Inl resp) \<Rightarrow> (w1, Inr resp)
      | Inr (Inr lrc_path) \<Rightarrow>
          (case params of
             (repo_id, audio_length, batch_infer_num, use_chunked, steps, cfg_strength, cuda) \<Rightarrow>
               finish_generate e
                 \<lparr>job_project = project, job_mode = mode, job_ref_mode = ref_mode,
                  job_ref_prompt = ref_prompt, job_ref_audio_path = rap,
                  job_ref_audio_existing = get_or (j_ref_audio_existing req) [],
                  job_lrc_path = lrc_path,
                  job_repo_id = repo_id, job_audio_length = audio_length,
                  job_batch_infer_num = batch_infer_num, job_use_chunked = use_chunked,
                  job_steps = steps, job_cfg_strength = cfg_strength, job_cuda = cuda,
                  job_project_dir = pd\<rparr> w1)) = (w', Inr (Completed res))"
    unfolding json_rest_def lr_def[symmetric] lr' by (simp split: sum.splits)
  moreover have "l \<noteq> Inr (Inl (Completed res))"
    using lr' by (auto simp: lr_def split: if_splits prod.splits sum.splits)
  ultimately obtain j where "finish_generate e j w1 = (w', Inr (Completed res))"
    "job_project j = project" "job_project_dir j = pd" "job_ref_prompt j = ref_prompt"
    "job_ref_audio_path j = rap"
    by (auto split: sum.splits prod.splits)
  with f show ?thesis by blast
qed

lemma py_strip_Nil: "py_strip [] = []"
  by (simp add: py_strip_def strip_chars_def)

lemma py_strip_nonempty: "py_strip s \<noteq> [] \<Longrightarrow> s \<noteq> []"
  by (auto simp: py_strip_Nil)

lemma api_generate_json_body_finish:
  assumes "api_generate_json_body e (Some req) w = (w', Inr (Completed res))"
  shows "\<exists>j w2. finish_generate e j w2 = (w', Inr (Completed res))
           \<and> project_path e (Some (job_project j)) (config w2) w2
               = (w2, Inr (job_project_dir j))
           \<and> validated (args_map_of j)
           \<and> spawned w2 = spawned w \<and> tmp w2 = tmp w \<and> lock w2 = lock w"
proof -
  let ?project = "json_project req (config w)"
  obtain w1 r where pp: "project_path e (Some ?project) (config w) w = (w1, r)"
    by (cases "project_path e (Some ?project) (config w) w")
  note fl = project_path_fields[OF pp]
  from assms pp obtain pd where r: "r = Inr pd"
    by (cases r) (auto simp: api_generate_json_body_def json_project_def Let_def)
  from assms pp r obtain params where ps: "json_params e req (config w) = Inr params"
    by (cases "json_params e req (config w)")
       (auto simp: api_generate_json_body_def json_project_def Let_def)
  from assms pp r ps obtain ref_mode ref_prompt rap w1' where
    fr: "json_rest e req ?project (get_or (j_mode req) ''advanced'') ref_mode ref_prompt
           rap params pd w1' = (w', Inr (Completed res))"
    and v: "rap \<noteq> None \<or> ref_prompt \<noteq> []"
    and w1': "projects w1' = projects w1" "config w1' = config w1" "spawned w1' = spawned w1"
      "tmp w1' = tmp w1" "lock w1' = lock w1"
    by (auto simp: api_generate_json_body_def json_project_def Let_def
        split: if_splits option.splits prod.splits sum.splits
        dest!: save_b64_frame save_from_url_frame dest: py_strip_nonempty)
  from json_rest_finish[OF fr] obtain j w2 where
    j: "finish_generate e j w2 = (w', Inr (Completed res))"
      "job_project j = ?project" "job_project_dir j = pd"
      "job_ref_prompt j = ref_prompt" "job_ref_audio_path j = rap"
      "projects w2 = projects w1'" "config w2 = config w1'"
      "spawned w2 = spawned w1'" "tmp w2 = tmp w1'" "lock w2 = lock w1'"
    by blast
  have "projects w2 = projects w1" using j(6) w1'(1) by simp
  from project_path_stable[OF pp[unfolded r] this]
  have "project_path e (Some (job_project j)) (config w2) w2 = (w2, Inr (job_project_dir j))"
    using j(2,3,7) w1'(2) fl(2) by simp
  moreover have "validated (args_map_of j)"
    using v j(4,5) by (auto simp: validated_def args_map_of_def)
  ultimately show ?thesis using j(1,8,9,10) w1' fl by auto
qed

end
